theory Spec2Isabelle
  imports Main "HOL-Library.Sublist"
begin

section \<open>Text, character classes and string helpers\<close>

text \<open>
  A document is a Python \<open>str\<close>. It is modelled as a \<open>string\<close> whose characters are the
  code points below 256, one \<open>char\<close> per code point. The classes below are Python's
  Unicode-aware \<open>\s\<close>, \<open>\d\<close> and \<open>\w\<close> (and \<open>str.isspace\<close>, used by \<open>str.strip\<close>) on that range.
\<close>

definition NL :: char where
  "NL = CHR 0x0A"

definition is_space :: "char \<Rightarrow> bool" where
  "is_space c = (let n = (of_char c :: nat) in
     (9 \<le> n \<and> n \<le> 13) \<or> (28 \<le> n \<and> n \<le> 32) \<or> n = 133 \<or> n = 160)"

definition is_digit :: "char \<Rightarrow> bool" where
  "is_digit c = (let n = (of_char c :: nat) in 48 \<le> n \<and> n \<le> 57)"

definition is_word :: "char \<Rightarrow> bool" where
  "is_word c = (let n = (of_char c :: nat) in
     (48 \<le> n \<and> n \<le> 57) \<or> (65 \<le> n \<and> n \<le> 90) \<or> n = 95 \<or> (97 \<le> n \<and> n \<le> 122)
     \<or> n = 170 \<or> n = 178 \<or> n = 179 \<or> n = 181 \<or> n = 185 \<or> n = 186
     \<or> (188 \<le> n \<and> n \<le> 190) \<or> (192 \<le> n \<and> n \<le> 214) \<or> (216 \<le> n \<and> n \<le> 246)
     \<or> 248 \<le> n)"

definition is_hex_lower :: "char \<Rightarrow> bool" where
  "is_hex_lower c = (let n = (of_char c :: nat) in
     (48 \<le> n \<and> n \<le> 57) \<or> (97 \<le> n \<and> n \<le> 102))"

definition ascii_lower :: "char \<Rightarrow> char" where
  "ascii_lower c = (let n = (of_char c :: nat) in
     if 65 \<le> n \<and> n \<le> 90 then char_of (n + 32) else c)"

text \<open>\<open>s.strip()\<close>, \<open>s[:n]\<close> is \<open>take n s\<close>, \<open>sub in s\<close> is \<open>sublist sub s\<close>.\<close>

definition strip :: "string \<Rightarrow> string" where
  "strip s = rev (dropWhile is_space (rev (dropWhile is_space s)))"

text \<open>\<open>s.count(p)\<close>: the number of non-overlapping occurrences, scanning from the left.\<close>

function count_sub :: "string \<Rightarrow> string \<Rightarrow> nat" where
  "count_sub p s =
     (if p = [] then Suc (length s)
      else (case s of
              [] \<Rightarrow> 0
            | c # cs \<Rightarrow> if prefix p s then Suc (count_sub p (drop (length p) s))
                        else count_sub p cs))"
  by pat_completeness auto
termination
  by (relation "measure (\<lambda>(p, s). length s)") auto

declare count_sub.simps [simp del]

text \<open>\<open>str(n)\<close> for a natural number, and \<open>int(s)\<close> for a string of ASCII digits.\<close>

function show_nat :: "nat \<Rightarrow> string" where
  "show_nat n =
     (if n < 10 then [char_of (48 + n)]
      else show_nat (n div 10) @ [char_of (48 + n mod 10)])"
  by pat_completeness auto
termination
  by (relation "measure id") auto

declare show_nat.simps [simp del]

definition parse_nat :: "string \<Rightarrow> nat" where
  "parse_nat s = foldl (\<lambda>a c. 10 * a + (of_char c - 48)) 0 s"

text \<open>A text between single quotes, as the messages print names.\<close>

definition quoted :: "string \<Rightarrow> string" where
  "quoted s = [CHR 0x27] @ s @ [CHR 0x27]"

text \<open>\<open>s.split('\n')\<close>.\<close>

fun split_lines :: "string \<Rightarrow> string list" where
  "split_lines [] = [[]]"
| "split_lines (c # cs) =
     (if c = NL then [] # split_lines cs
      else (case split_lines cs of
              [] \<Rightarrow> [[c]]
            | l # ls \<Rightarrow> (c # l) # ls))"

section \<open>Regular expressions as the validators use them\<close>

text \<open>
  The validators are written with Python's \<open>re\<close>. The patterns they use are built from
  literals, single-character classes under a greedy or lazy bounded repetition,
  concatenation, alternation, a greedy optional part, one capturing group, a lookahead
  and \<open>$\<close>. The matcher is a backtracking matcher: it returns every way the pattern can
  match at the start of the text, in the order in which Python tries them, so the head of
  the list is the match Python reports.
\<close>

datatype cclass = CSpace | CDigit | CWord | CHex | CAny | CNot char | CColonSpace

text \<open>
  \<open>CAny\<close> is \<open>.\<close> under \<open>re.DOTALL\<close> (every use of \<open>.\<close> in the source has that flag),
  \<open>CNot x\<close> is \<open>[^x]\<close>, \<open>CHex\<close> is \<open>[a-f0-9]\<close>, which under \<open>re.IGNORECASE\<close> also takes
  \<open>A-F\<close>, and \<open>CColonSpace\<close> is \<open>[:\s]\<close>.
\<close>

fun cmatch :: "bool \<Rightarrow> cclass \<Rightarrow> char \<Rightarrow> bool" where
  "cmatch ic CSpace c = is_space c"
| "cmatch ic CDigit c = is_digit c"
| "cmatch ic CWord c = is_word c"
| "cmatch ic CHex c = (if ic then is_hex_lower (ascii_lower c) else is_hex_lower c)"
| "cmatch ic CAny c = True"
| "cmatch ic (CNot x) c = (c \<noteq> x)"
| "cmatch ic CColonSpace c = (c = CHR '':'' \<or> is_space c)"

definition ch_eq :: "bool \<Rightarrow> char \<Rightarrow> char \<Rightarrow> bool" where
  "ch_eq ic p c = (if ic then ascii_lower p = ascii_lower c else p = c)"

fun lit_match :: "bool \<Rightarrow> string \<Rightarrow> string \<Rightarrow> string option" where
  "lit_match ic [] s = Some s"
| "lit_match ic (p # ps) [] = None"
| "lit_match ic (p # ps) (c # cs) = (if ch_eq ic p c then lit_match ic ps cs else None)"

datatype rx =
    Lit string
  | Rep bool nat "nat option" cclass
  | Seq rx rx
  | Alt rx rx
  | Opt rx
  | Grp rx
  | Look rx
  | Eos

text \<open>
  \<open>Rep greedy lo hi c\<close> repeats the class between \<open>lo\<close> and \<open>hi\<close> times (no upper bound
  when \<open>hi = None\<close>); greedy tries the longest run first, lazy the shortest.
\<close>

abbreviation Many :: "cclass \<Rightarrow> rx" where "Many c \<equiv> Rep True 0 None c"
abbreviation Many1 :: "cclass \<Rightarrow> rx" where "Many1 c \<equiv> Rep True 1 None c"
abbreviation Few :: "cclass \<Rightarrow> rx" where "Few c \<equiv> Rep False 0 None c"
abbreviation Few1 :: "cclass \<Rightarrow> rx" where "Few1 c \<equiv> Rep False 1 None c"
abbreviation Exactly :: "nat \<Rightarrow> cclass \<Rightarrow> rx" where "Exactly n c \<equiv> Rep True n (Some n) c"

fun seqs :: "rx list \<Rightarrow> rx" where
  "seqs [] = Lit []"
| "seqs [r] = r"
| "seqs (r # rs) = Seq r (seqs rs)"

fun alts :: "rx list \<Rightarrow> rx" where
  "alts [] = Lit []"
| "alts [r] = r"
| "alts (r # rs) = Alt r (alts rs)"

definition rep_counts :: "bool \<Rightarrow> nat \<Rightarrow> nat option \<Rightarrow> nat \<Rightarrow> nat list" where
  "rep_counts greedy lo hi k =
     (let top = (case hi of None \<Rightarrow> k | Some h \<Rightarrow> min h k);
          cs = [lo ..< Suc top]
      in if greedy then rev cs else cs)"

text \<open>
  \<open>mt ic r s g\<close>: the text is \<open>s\<close>, \<open>g\<close> is the capture so far, \<open>ic\<close> is \<open>re.IGNORECASE\<close>;
  each result is the text left after the match and the capture. \<open>$\<close> (without
  \<open>re.MULTILINE\<close>) matches at the end of the text and before a final newline.
\<close>

fun mt :: "bool \<Rightarrow> rx \<Rightarrow> string \<Rightarrow> string option \<Rightarrow> (string \<times> string option) list" where
  "mt ic (Lit p) s g = (case lit_match ic p s of None \<Rightarrow> [] | Some r \<Rightarrow> [(r, g)])"
| "mt ic (Rep gr lo hi c) s g =
     map (\<lambda>j. (drop j s, g)) (rep_counts gr lo hi (length (takeWhile (cmatch ic c) s)))"
| "mt ic (Seq a b) s g = concat (map (\<lambda>(s', g'). mt ic b s' g') (mt ic a s g))"
| "mt ic (Alt a b) s g = mt ic a s g @ mt ic b s g"
| "mt ic (Opt a) s g = mt ic a s g @ [(s, g)]"
| "mt ic (Grp a) s g =
     map (\<lambda>(s', g'). (s', Some (take (length s - length s') s))) (mt ic a s g)"
| "mt ic (Look a) s g = (if mt ic a s g = [] then [] else [(s, g)])"
| "mt ic Eos s g = (if s = [] \<or> s = [NL] then [(s, g)] else [])"

text \<open>
  \<open>re.search\<close>: the first position at which the pattern matches; the result is the
  matched text (\<open>group(0)\<close>) and the capture (\<open>group(1)\<close>).
\<close>

fun re_search :: "bool \<Rightarrow> rx \<Rightarrow> string \<Rightarrow> (string \<times> string option) option" where
  "re_search ic r [] =
     (case mt ic r [] None of [] \<Rightarrow> None | (rest, g) # _ \<Rightarrow> Some ([], g))"
| "re_search ic r (c # cs) =
     (case mt ic r (c # cs) None of
        [] \<Rightarrow> re_search ic r cs
      | (rest, g) # _ \<Rightarrow> Some (take (length (c # cs) - length rest) (c # cs), g))"

text \<open>
  A search whose pattern starts with \<open>\b\<close>: a position qualifies when exactly one of the
  characters before and after it is a word character.
\<close>

definition word_boundary :: "char option \<Rightarrow> string \<Rightarrow> bool" where
  "word_boundary prev s =
     ((case prev of None \<Rightarrow> False | Some p \<Rightarrow> is_word p)
      \<noteq> (case s of [] \<Rightarrow> False | c # _ \<Rightarrow> is_word c))"

fun re_search_wb :: "bool \<Rightarrow> rx \<Rightarrow> char option \<Rightarrow> string \<Rightarrow> (string \<times> string option) option" where
  "re_search_wb ic r prev [] =
     (if word_boundary prev [] then
        (case mt ic r [] None of [] \<Rightarrow> None | (rest, g) # _ \<Rightarrow> Some ([], g))
      else None)"
| "re_search_wb ic r prev (c # cs) =
     (case (if word_boundary prev (c # cs) then mt ic r (c # cs) None else []) of
        [] \<Rightarrow> re_search_wb ic r (Some c) cs
      | (rest, g) # _ \<Rightarrow> Some (take (length (c # cs) - length rest) (c # cs), g))"

text \<open>
  \<open>re.findall\<close>: the matches from left to right, each search starting where the previous
  match ended. None of the patterns given to \<open>findall\<close> in the source can match the empty
  string; after an empty match the scan moves one character on.
\<close>

function re_findall :: "bool \<Rightarrow> rx \<Rightarrow> string \<Rightarrow> (string \<times> string option) list" where
  "re_findall ic r s =
     (case mt ic r s None of
        [] \<Rightarrow> (case s of [] \<Rightarrow> [] | c # cs \<Rightarrow> re_findall ic r cs)
      | (rest, g) # _ \<Rightarrow>
          (take (length s - length rest) s, g) #
          (if length rest < length s then re_findall ic r rest
           else (case s of [] \<Rightarrow> [] | c # cs \<Rightarrow> re_findall ic r cs)))"
  by pat_completeness auto
termination
  by (relation "measure (\<lambda>(ic, r, s). length s)") auto

declare re_findall.simps [simp del]

text \<open>\<open>match.group(1)\<close>; every pattern whose group is read has the group on every path.\<close>

definition group1 :: "string \<times> string option \<Rightarrow> string" where
  "group1 m = (case snd m of None \<Rightarrow> [] | Some v \<Rightarrow> v)"

definition group0 :: "string \<times> string option \<Rightarrow> string" where
  "group0 m = fst m"

section \<open>Configuration and the validation result\<close>

definition MIN_SUMMARY_LENGTH :: nat where
  "MIN_SUMMARY_LENGTH = 50"

definition MAX_FILE_SIZE :: nat where
  "MAX_FILE_SIZE = 1000000"

definition REQUIRED_AGENTS :: "string list" where
  "REQUIRED_AGENTS =
     [''Backend-Agent'', ''Frontend-Agent'', ''QA-Agent'', ''Document-RAG-Agent'',
      ''Super-AI-UltraThink-Agent'', ''frontend-debug-agent'']"

definition REQUIRED_SECTIONS :: "string list" where
  "REQUIRED_SECTIONS =
     [''Section 1: Agent Invocation Evidence'', ''Section 2: Agent Responses'',
      ''Section 3: Consolidated Checklist'', ''Section 4: Unresolved Issues'',
      ''Section 5: Sign-offs'', ''Section 6: Gate Decision'', ''Section 7: Validation'']"

definition VALID_AGENT_STATUSES :: "string list" where
  "VALID_AGENT_STATUSES = [''OK'', ''CONCERN'', ''QUESTION'', ''STANDBY'']"

definition VALID_GATE_DECISIONS :: "string list" where
  "VALID_GATE_DECISIONS = [''PASS'', ''FAIL'', ''CONDITIONAL'']"

record ValidationResult =
  valid :: bool
  errors :: "string list"
  warnings :: "string list"
  info :: "string list"

text \<open>\<open>ValidationResult(valid=True)\<close>, and the three \<open>append\<close>s.\<close>

definition new_result :: ValidationResult where
  "new_result = \<lparr>valid = True, errors = [], warnings = [], info = []\<rparr>"

definition add_error :: "string \<Rightarrow> ValidationResult \<Rightarrow> ValidationResult" where
  "add_error e r = r\<lparr>errors := errors r @ [e]\<rparr>"

definition add_warning :: "string \<Rightarrow> ValidationResult \<Rightarrow> ValidationResult" where
  "add_warning w r = r\<lparr>warnings := warnings r @ [w]\<rparr>"

definition add_info :: "string \<Rightarrow> ValidationResult \<Rightarrow> ValidationResult" where
  "add_info i r = r\<lparr>info := info r @ [i]\<rparr>"

section \<open>Dates and times\<close>

record date =
  year :: nat
  month :: nat
  day :: nat

record datetime = date +
  hour :: nat
  minute :: nat
  second :: nat
  microsecond :: nat

definition is_leap :: "nat \<Rightarrow> bool" where
  "is_leap y = (y mod 4 = 0 \<and> (y mod 100 \<noteq> 0 \<or> y mod 400 = 0))"

definition days_in_month :: "nat \<Rightarrow> nat \<Rightarrow> nat" where
  "days_in_month y m =
     (if m = 2 then (if is_leap y then 29 else 28)
      else if m = 4 \<or> m = 6 \<or> m = 9 \<or> m = 11 then 30 else 31)"

definition valid_ymd :: "nat \<Rightarrow> nat \<Rightarrow> nat \<Rightarrow> bool" where
  "valid_ymd y m d = (1 \<le> y \<and> y \<le> 9999 \<and> 1 \<le> m \<and> m \<le> 12 \<and> 1 \<le> d \<and> d \<le> days_in_month y m)"

definition mk_date :: "nat \<Rightarrow> nat \<Rightarrow> nat \<Rightarrow> date" where
  "mk_date y m d = \<lparr>year = y, month = m, day = d\<rparr>"

definition mk_datetime :: "nat \<Rightarrow> nat \<Rightarrow> nat \<Rightarrow> nat \<Rightarrow> nat \<Rightarrow> nat \<Rightarrow> nat \<Rightarrow> datetime" where
  "mk_datetime y m d H M S us =
     \<lparr>year = y, month = m, day = d, hour = H, minute = M, second = S, microsecond = us\<rparr>"

text \<open>\<open>dt.date()\<close>.\<close>

definition date_of :: "datetime \<Rightarrow> date" where
  "date_of t = mk_date (year t) (month t) (day t)"

definition date_lt :: "date \<Rightarrow> date \<Rightarrow> bool" where
  "date_lt a b =
     (year a < year b \<or> (year a = year b \<and>
       (month a < month b \<or> (month a = month b \<and> day a < day b))))"

definition time_key :: "datetime \<Rightarrow> nat" where
  "time_key t = ((hour t * 60 + minute t) * 60 + second t) * 1000000 + microsecond t"

definition datetime_lt :: "datetime \<Rightarrow> datetime \<Rightarrow> bool" where
  "datetime_lt a b =
     (date_lt (date_of a) (date_of b) \<or>
      (date_of a = date_of b \<and> time_key a < time_key b))"

text \<open>\<open>date.toordinal()\<close>, used for \<open>(a - b).days\<close>.\<close>

definition days_before_year :: "nat \<Rightarrow> nat" where
  "days_before_year y = (let p = y - 1 in p * 365 + p div 4 - p div 100 + p div 400)"

definition days_before_month :: "nat \<Rightarrow> nat \<Rightarrow> nat" where
  "days_before_month y m = sum_list (map (days_in_month y) [1 ..< m])"

definition toordinal :: "date \<Rightarrow> nat" where
  "toordinal a = days_before_year (year a) + days_before_month (year a) (month a) + day a"

text \<open>
  \<open>datetime.strptime(s, "%Y-%m-%d")\<close> on a text of the shape \<open>dddd-dd-dd\<close>, and
  \<open>datetime.fromisoformat(s)\<close> on a text of the shape \<open>dddd-dd-ddTdd:dd:dd\<close>; \<open>None\<close> is
  the \<open>ValueError\<close>.
\<close>

definition strptime_ymd :: "string \<Rightarrow> datetime option" where
  "strptime_ymd s =
     (let y = parse_nat (take 4 s); m = parse_nat (take 2 (drop 5 s));
          d = parse_nat (take 2 (drop 8 s))
      in if valid_ymd y m d then Some (mk_datetime y m d 0 0 0 0) else None)"

definition fromisoformat :: "string \<Rightarrow> datetime option" where
  "fromisoformat s =
     (let y = parse_nat (take 4 s); m = parse_nat (take 2 (drop 5 s));
          d = parse_nat (take 2 (drop 8 s)); H = parse_nat (take 2 (drop 11 s));
          M = parse_nat (take 2 (drop 14 s)); S = parse_nat (take 2 (drop 17 s))
      in if valid_ymd y m d \<and> H < 24 \<and> M < 60 \<and> S < 60
         then Some (mk_datetime y m d H M S 0) else None)"

text \<open>\<open>dt.replace(year=dt.year + 1)\<close>; \<open>None\<close> is the \<open>ValueError\<close> (29 February, or year 10000).\<close>

definition replace_next_year :: "datetime \<Rightarrow> datetime option" where
  "replace_next_year t =
     (if valid_ymd (Suc (year t)) (month t) (day t)
      then Some (t\<lparr>year := Suc (year t)\<rparr>) else None)"

section \<open>The world outside the validator\<close>

text \<open>
  What the validator reads from outside the document: the clock (\<open>datetime.now()\<close>,
  read once), the file system, \<open>git cat-file -t\<close>, and the order in which Python
  enumerates a \<open>set\<close> of strings.
\<close>

datatype read_outcome =
    Text string
  | NotUtf8 string
  | ReadDenied string
  | ReadFailed string string

datatype file_state = Missing | Present nat date read_outcome

datatype git_outcome = GitExit nat | GitUnavailable

record env =
  now :: datetime
  fs :: "string \<Rightarrow> file_state"
  git_cat_file :: "string \<Rightarrow> git_outcome"
  set_order :: "string list \<Rightarrow> string list"

definition path_exists :: "env \<Rightarrow> string \<Rightarrow> bool" where
  "path_exists e p = (fs e p \<noteq> Missing)"

section \<open>Reading the gate record\<close>

datatype read_error =
    FileNotFoundError string
  | ValueError string
  | PermissionError string
  | OtherError string string

text \<open>
  \<open>read_file\<close>: \<open>Inl\<close> is the exception raised, with its message. \<open>NotUtf8 m\<close> is a
  \<open>UnicodeDecodeError\<close> whose text is \<open>m\<close>; \<open>ReadDenied\<close> and \<open>ReadFailed\<close> are a
  \<open>PermissionError\<close> and any other exception of \<open>read_text\<close> (type name and message).
\<close>

definition read_file :: "env \<Rightarrow> string \<Rightarrow> read_error + string" where
  "read_file e file_path =
     (case fs e file_path of
        Missing \<Rightarrow> Inl (FileNotFoundError (''Gate record not found: '' @ file_path))
      | Present file_size mtime rd \<Rightarrow>
          if file_size > MAX_FILE_SIZE then
            Inl (ValueError (''File too large: '' @ show_nat file_size @ '' bytes (max ''
                             @ show_nat MAX_FILE_SIZE @ '')''))
          else
            (case rd of
               NotUtf8 m \<Rightarrow>
                 Inl (ValueError (''File encoding error: '' @ file_path
                                  @ '' is not valid UTF-8. Error: '' @ m))
             | ReadDenied m \<Rightarrow> Inl (PermissionError m)
             | ReadFailed t m \<Rightarrow> Inl (OtherError t m)
             | Text content \<Rightarrow>
                 if strip content = [] then
                   Inl (ValueError (''Gate record file is empty: '' @ file_path))
                 else Inr content))"

section \<open>Section validators\<close>

definition check_required_sections :: "string \<Rightarrow> ValidationResult \<Rightarrow> ValidationResult" where
  "check_required_sections content r =
     fold (\<lambda>section r.
             if \<not> sublist section content then
               add_error (''Missing required section: '' @ quoted section @ ''. ''
                  @ ''Copy from template: .claude-bus/templates/gate-validation-template.md'') r
             else add_info (''Found section: '' @ quoted section) r)
          REQUIRED_SECTIONS r"

definition stage_re :: rx where
  "stage_re = seqs [Lit ''**Stage**:'', Many CSpace, Grp (Many1 CDigit)]"

definition phase_re :: rx where
  "phase_re = seqs [Lit ''**Phase**:'', Many CSpace, Grp (Many1 CDigit)]"

definition gate_type_re :: rx where
  "gate_type_re = seqs [Lit ''**Gate Type**:'', Many CSpace, Grp (Alt (Lit ''Input'') (Lit ''Output''))]"

definition date_re :: rx where
  "date_re = seqs [Lit ''**Date**:'', Many CSpace,
     Grp (seqs [Exactly 4 CDigit, Lit ''-'', Exactly 2 CDigit, Lit ''-'', Exactly 2 CDigit])]"

text \<open>The status pattern is searched with \<open>re.IGNORECASE\<close>.\<close>

definition status_re :: rx where
  "status_re = seqs [Lit ''**Status**:'', Many CSpace,
     Grp (alts [Lit ''PENDING'',
                seqs [Lit ''PASS'', Opt (Lit ''ED''),
                      Opt (seqs [Many CSpace, Lit ''('', Many1 (CNot (CHR '')'')), Lit '')''])],
                seqs [Lit ''FAIL'', Opt (Lit ''ED'')]])]"

text \<open>
  \<open>check_metadata\<close> is five blocks, one per field. (The source writes the stage and phase
  patterns without a group there; whether they match is the same.)
\<close>

definition check_stage_field :: "string \<Rightarrow> ValidationResult \<Rightarrow> ValidationResult" where
  "check_stage_field content r =
     (if re_search False stage_re content = None
      then add_error ''Missing or invalid Stage number. Add: **Stage**: N'' r else r)"

definition check_phase_field :: "string \<Rightarrow> ValidationResult \<Rightarrow> ValidationResult" where
  "check_phase_field content r =
     (if re_search False phase_re content = None
      then add_error ''Missing or invalid Phase number. Add: **Phase**: N'' r else r)"

definition check_gate_type_field :: "string \<Rightarrow> ValidationResult \<Rightarrow> ValidationResult" where
  "check_gate_type_field content r =
     (if re_search False gate_type_re content = None
      then add_error ''Missing or invalid Gate Type. Add: **Gate Type**: Input or Output'' r
      else r)"

text \<open>
  The \<open>try\<close> around the date covers \<open>strptime\<close> and \<open>datetime.now().replace(year=...)\<close>:
  a \<open>ValueError\<close> of either is reported as an invalid date.
\<close>

definition check_date_field :: "env \<Rightarrow> string \<Rightarrow> ValidationResult \<Rightarrow> ValidationResult" where
  "check_date_field e content r =
     (case re_search False date_re content of
        None \<Rightarrow> add_error ''Missing or invalid Date. Add: **Date**: YYYY-MM-DD'' r
      | Some date_match \<Rightarrow>
          (case strptime_ymd (group1 date_match) of
             None \<Rightarrow> add_error (''Invalid date format: '' @ group1 date_match) r
           | Some parsed_date \<Rightarrow>
               (case replace_next_year (now e) of
                  None \<Rightarrow> add_error (''Invalid date format: '' @ group1 date_match) r
                | Some limit \<Rightarrow>
                    if datetime_lt limit parsed_date then
                      add_warning (''Date '' @ group1 date_match
                                   @ '' is more than 1 year in future'') r
                    else r)))"

definition check_status_field :: "string \<Rightarrow> ValidationResult \<Rightarrow> ValidationResult" where
  "check_status_field content r =
     (if re_search True status_re content = None
      then add_error ''Missing or invalid Status. Add: **Status**: PENDING, PASS, or FAIL'' r
      else r)"

definition check_metadata :: "env \<Rightarrow> string \<Rightarrow> ValidationResult \<Rightarrow> ValidationResult" where
  "check_metadata e content r0 =
     check_status_field content
       (check_date_field e content
          (check_gate_type_field content
             (check_phase_field content
                (check_stage_field content r0))))"

text \<open>
  Each section is cut out of the document by a lazy search from its header to the next
  header (or to the end of the text): \<open>## <header>.*?(?=<next>|$)\<close>. \<open>None\<close> is
  \<open>re.search\<close> finding nothing.
\<close>

definition section_re :: "string \<Rightarrow> string \<Rightarrow> rx" where
  "section_re header nxt = seqs [Lit header, Few CAny, Look (Alt (Lit nxt) Eos)]"

definition extract_section :: "string \<Rightarrow> string \<Rightarrow> string \<Rightarrow> string option" where
  "extract_section header nxt content =
     map_option group0 (re_search False (section_re header nxt) content)"

definition timestamp_shape :: rx where
  "timestamp_shape = seqs [Exactly 4 CDigit, Lit ''-'', Exactly 2 CDigit, Lit ''-'',
     Exactly 2 CDigit, Lit ''T'', Exactly 2 CDigit, Lit '':'', Exactly 2 CDigit, Lit '':'',
     Exactly 2 CDigit]"

definition invocation_timestamp_re :: rx where
  "invocation_timestamp_re =
     seqs [Lit ''**Invocation Timestamp**:'', Many CSpace, Grp timestamp_shape]"

definition invocation_row_re :: "string \<Rightarrow> rx" where
  "invocation_row_re agent =
     seqs [Lit ''|'', Many CSpace, Lit agent, Many CSpace, Lit ''|'', Many CSpace,
           Grp (Alt (Lit ''YES'') (Lit ''NO'')), Many CSpace, Lit ''|'']"

text \<open>One turn of the loop over the required agents: the count so far and the result.\<close>

definition invocation_step :: "string \<Rightarrow> string \<Rightarrow> nat \<times> ValidationResult \<Rightarrow> nat \<times> ValidationResult" where
  "invocation_step section agent st =
     (case re_search False (invocation_row_re agent) section of
        Some m \<Rightarrow> (if group1 m = ''YES'' then (Suc (fst st), snd st) else st)
      | None \<Rightarrow>
          (fst st, add_error (''Agent '' @ quoted agent @ '' not listed in invocation table'')
                     (snd st)))"

definition blocking_message :: "nat \<Rightarrow> string" where
  "blocking_message agents_invoked =
     ''BLOCKING: Only '' @ show_nat agents_invoked @ ''/6 agents invoked. G-001 requires ALL 6.''"

text \<open>The block of \<open>check_agent_invocation\<close> that checks the timestamp.\<close>

definition check_invocation_timestamp :: "string \<Rightarrow> ValidationResult \<Rightarrow> ValidationResult" where
  "check_invocation_timestamp section r0 =
     (case re_search False invocation_timestamp_re section of
        None \<Rightarrow>
          add_error ''Missing Invocation Timestamp. Add: **Invocation Timestamp**: ISO 8601'' r0
      | Some timestamp_match \<Rightarrow>
          (case fromisoformat (group1 timestamp_match) of
             Some t \<Rightarrow> r0
           | None \<Rightarrow> add_error (''Invalid timestamp format: '' @ group1 timestamp_match) r0))"

text \<open>The body of \<open>check_agent_invocation\<close> once Section 1 has been found.\<close>

definition check_invocation_section :: "string \<Rightarrow> ValidationResult \<Rightarrow> ValidationResult" where
  "check_invocation_section section r0 =
     (let r1 = check_invocation_timestamp section r0;
          st = fold (invocation_step section) REQUIRED_AGENTS (0, r1);
          agents_invoked = fst st;
          r2 = (if agents_invoked < 6 then add_error (blocking_message agents_invoked) (snd st)
                else snd st);
          unchecked = count_sub ''[ ]'' section
      in if unchecked > 0 then
           add_error (''Unchecked verification items in Section 1 ('' @ show_nat unchecked
                      @ '' items)'') r2
         else r2)"

definition check_agent_invocation :: "string \<Rightarrow> ValidationResult \<Rightarrow> ValidationResult" where
  "check_agent_invocation content r0 =
     (case extract_section ''## Section 1: Agent Invocation Evidence'' ''## Section 2:'' content of
        None \<Rightarrow> add_error ''Cannot parse Section 1: Agent Invocation Evidence'' r0
      | Some section \<Rightarrow> check_invocation_section section r0)"

definition agent_response_re :: "string \<Rightarrow> rx" where
  "agent_response_re agent =
     seqs [Lit (''### '' @ agent @ '' Response''), Few CAny,
           Look (alts [Lit ''###'', Lit ''## Section 3:'', Eos])]"

definition agent_status_re :: rx where
  "agent_status_re = seqs [Lit ''**Status**:'', Many CSpace, Grp (Many1 CWord)]"

definition summary_re :: rx where
  "summary_re =
     seqs [Lit ''**Summary**'', Few CAny, Lit '':'', Many CSpace, Lit [NL], Grp (Few1 CAny),
           Look (alts [Lit ''**Checklist'', Lit [NL, NL], Eos])]"

text \<open>
  One turn of the loop of \<open>check_agent_responses\<close>: the agents with concerns so far and
  the result. A missing response block is the \<open>continue\<close>.
\<close>

definition response_step :: "string \<Rightarrow> string \<Rightarrow> string list \<times> ValidationResult \<Rightarrow> string list \<times> ValidationResult" where
  "response_step section agent st =
     (case re_search False (agent_response_re agent) section of
        None \<Rightarrow> (fst st, add_error (''Missing response section for '' @ quoted agent) (snd st))
      | Some agent_match \<Rightarrow>
          (let agent_section = group0 agent_match;
               st1 = (case re_search False agent_status_re agent_section of
                        None \<Rightarrow> (fst st, add_error (''Missing Status for '' @ quoted agent) (snd st))
                      | Some status_match \<Rightarrow>
                          if group1 status_match \<notin> set VALID_AGENT_STATUSES then
                            (fst st, add_error (''Invalid Status '' @ quoted (group1 status_match)
                                                @ '' for '' @ quoted agent) (snd st))
                          else if group1 status_match \<in> set [''CONCERN'', ''QUESTION''] then
                            (fst st @ [agent], snd st)
                          else st)
           in (case re_search False summary_re agent_section of
                 Some summary_match \<Rightarrow>
                   (let summary = strip (group1 summary_match)
                    in if sublist ''[REQUIRED'' summary then
                         (fst st1, add_error (quoted agent @ '' summary contains unfilled placeholder'')
                                     (snd st1))
                       else if length summary < MIN_SUMMARY_LENGTH then
                         (fst st1, add_warning (quoted agent @ '' summary too short (''
                                                @ show_nat (length summary) @ '' chars)'') (snd st1))
                       else st1)
               | None \<Rightarrow> (fst st1, add_error (''Missing Summary for '' @ quoted agent) (snd st1)))))"

text \<open>\<open>check_agent_responses\<close> returns the agents with concerns; the result is updated.\<close>

definition check_agent_responses :: "string \<Rightarrow> ValidationResult \<Rightarrow> string list \<times> ValidationResult" where
  "check_agent_responses content r0 =
     (case extract_section ''## Section 2: Agent Responses'' ''## Section 3:'' content of
        None \<Rightarrow> ([], add_error ''Cannot parse Section 2: Agent Responses'' r0)
      | Some section \<Rightarrow> fold (response_step section) REQUIRED_AGENTS ([], r0))"

definition table_row_re :: rx where
  "table_row_re =
     seqs [Lit ''|'', Many CSpace, Many1 CDigit, Many CSpace, Lit ''|'',
           Many1 (CNot (CHR ''|'')), Lit ''|'', Many1 (CNot (CHR ''|'')), Lit ''|'',
           Many1 (CNot (CHR ''|'')), Lit ''|'', Many1 (CNot (CHR ''|'')), Lit ''|'']"

definition total_items_re :: rx where
  "total_items_re = seqs [Lit ''**Total Items**:'', Many CSpace, Many1 CDigit]"

text \<open>One turn of \<open>for i, row in enumerate(table_rows, 1)\<close>.\<close>

definition checklist_row_step :: "nat \<times> string \<Rightarrow> ValidationResult \<Rightarrow> ValidationResult" where
  "checklist_row_step ir r =
     (let i = fst ir; row = snd ir;
          r1 = (if sublist ''[REQUIRED]'' row then
                  add_error (''Checklist item #'' @ show_nat i @ '' contains unfilled placeholder'') r
                else r);
          has_valid_source = list_ex (\<lambda>agent. sublist agent row) REQUIRED_AGENTS
      in if \<not> has_valid_source \<and> \<not> sublist ''PM-Architect'' row then
           add_warning (''Checklist item #'' @ show_nat i @ '' may be missing source agent'') r1
         else r1)"

definition check_consolidated_checklist :: "string \<Rightarrow> ValidationResult \<Rightarrow> ValidationResult" where
  "check_consolidated_checklist content r0 =
     (case extract_section ''## Section 3: Consolidated Checklist'' ''## Section 4:'' content of
        None \<Rightarrow> add_error ''Cannot parse Section 3: Consolidated Checklist'' r0
      | Some section \<Rightarrow>
          (let table_rows = map group0 (re_findall False table_row_re section);
               r1 = (if table_rows = [] then
                       add_warning ''No checklist items found in Section 3'' r0
                     else
                       fold checklist_row_step (zip [1 ..< Suc (length table_rows)] table_rows)
                         (add_info (''Found '' @ show_nat (length table_rows) @ '' checklist items'') r0))
           in if re_search False total_items_re section = None then
                add_error ''Missing Total Items count'' r1
              else r1))"

definition concern_status_re :: rx where
  "concern_status_re =
     seqs [Lit ''**Status**:'', Many CSpace, Grp (Alt (Lit ''CONCERN'') (Lit ''QUESTION''))]"

definition check_unresolved_issues :: "string \<Rightarrow> ValidationResult \<Rightarrow> ValidationResult" where
  "check_unresolved_issues content r0 =
     (case extract_section ''## Section 4: Unresolved Issues'' ''## Section 5:'' content of
        None \<Rightarrow> add_error ''Cannot parse Section 4: Unresolved Issues'' r0
      | Some section \<Rightarrow>
          (let has_concerns = (re_search False concern_status_re content \<noteq> None);
               issue_rows = re_findall False table_row_re section;
               has_issues = (length issue_rows > 0 \<or> sublist ''None'' section)
           in if has_concerns \<and> \<not> has_issues then
                add_error ''Agents raised CONCERN/QUESTION but Section 4 has no issues listed'' r0
              else r0))"

definition signoff_row_re :: "string \<Rightarrow> string list \<Rightarrow> rx" where
  "signoff_row_re agent vals =
     seqs [Lit ''|'', Many CSpace, Lit agent, Many CSpace, Lit ''|'', Many CSpace,
           Grp (alts (map Lit vals)), Many CSpace, Lit ''|'']"

definition check_signoffs :: "string \<Rightarrow> ValidationResult \<Rightarrow> ValidationResult" where
  "check_signoffs content r0 =
     (case extract_section ''## Section 5: Sign-offs'' ''## Section 6:'' content of
        None \<Rightarrow> add_error ''Cannot parse Section 5: Sign-offs'' r0
      | Some section \<Rightarrow>
          (let r1 = (if re_search False
                          (signoff_row_re ''PM-Architect-Agent'' [''APPROVED'', ''REJECTED'', ''CONDITIONAL''])
                          section = None
                     then add_error ''PM-Architect-Agent sign-off missing or invalid'' r0 else r0)
           in fold (\<lambda>agent r.
                      if re_search False
                           (signoff_row_re agent [''APPROVED'', ''REJECTED'', ''CONDITIONAL'', ''N/A''])
                           section = None
                      then add_error (quoted agent @ '' sign-off missing or invalid'') r else r)
                REQUIRED_AGENTS r1))"

definition decision_re :: rx where
  "decision_re = seqs [Lit ''**Decision**:'', Many CSpace, Grp (Many1 CWord)]"

definition pm_rejected_re :: rx where
  "pm_rejected_re =
     seqs [Lit ''|'', Many CSpace, Lit ''PM-Architect-Agent'', Many CSpace, Lit ''|'', Many CSpace,
           Lit ''REJECTED'', Many CSpace, Lit ''|'']"

definition inconsistency_message :: string where
  "inconsistency_message = ''INCONSISTENCY: Decision is PASS but PM-Architect signed REJECTED''"

text \<open>The cross-validation of a valid decision against the whole document.\<close>

definition cross_validate_decision :: "string \<Rightarrow> string \<Rightarrow> string \<Rightarrow> ValidationResult \<Rightarrow> ValidationResult" where
  "cross_validate_decision content section decision r0 =
     (let pm_rejected = (re_search False pm_rejected_re content \<noteq> None);
          r1 = (if decision = ''PASS'' \<and> pm_rejected
                then add_error inconsistency_message r0 else r0);
          r2 = (if decision = ''FAIL'' \<and> \<not> sublist ''Blocking Issues'' section
                then add_warning ''Decision is FAIL but no Blocking Issues documented'' r1
                else r1)
      in if decision = ''CONDITIONAL'' \<and> \<not> sublist ''Conditions'' section
         then add_warning ''Decision is CONDITIONAL but no Conditions documented'' r2
         else r2)"

definition check_gate_decision :: "string \<Rightarrow> ValidationResult \<Rightarrow> ValidationResult" where
  "check_gate_decision content r0 =
     (case extract_section ''## Section 6: Gate Decision'' ''## Section 7:'' content of
        None \<Rightarrow> add_error ''Cannot parse Section 6: Gate Decision'' r0
      | Some section \<Rightarrow>
          (case re_search False decision_re section of
             None \<Rightarrow>
               add_error ''Missing Gate Decision. Add: **Decision**: PASS, FAIL, or CONDITIONAL'' r0
           | Some decision_match \<Rightarrow>
               if group1 decision_match \<notin> set VALID_GATE_DECISIONS then
                 add_error (''Invalid Decision '' @ quoted (group1 decision_match)) r0
               else cross_validate_decision content section (group1 decision_match) r0))"

definition validation_result_re :: rx where
  "validation_result_re =
     seqs [Lit ''**Validation Result**:'', Many CSpace, Grp (Alt (Lit ''VALID'') (Lit ''INVALID''))]"

definition validation_timestamp_started_re :: rx where
  "validation_timestamp_started_re =
     seqs [Lit ''**Validation Timestamp**:'', Many CSpace, Exactly 4 CDigit, Lit ''-'',
           Exactly 2 CDigit, Lit ''-'', Exactly 2 CDigit, Lit ''T'']"

definition check_validation_section :: "string \<Rightarrow> ValidationResult \<Rightarrow> ValidationResult" where
  "check_validation_section content r0 =
     (case extract_section ''## Section 7: Validation'' ''## Document History'' content of
        None \<Rightarrow> add_error ''Cannot parse Section 7: Validation'' r0
      | Some section \<Rightarrow>
          (let r1 = (if re_search False validation_result_re section = None
                     then add_warning ''Validation Result not yet filled'' r0 else r0)
           in if re_search False validation_timestamp_started_re section = None
              then add_warning ''Validation Timestamp not yet filled'' r1 else r1))"

definition placeholder_re :: rx where
  "placeholder_re = seqs [Lit ''[REQUIRED'', Many (CNot (CHR '']'')), Lit '']'']"

text \<open>
  \<open>list(set(placeholders))[:5]\<close>: the order of a Python set of strings is not fixed; the
  environment's \<open>set_order\<close> gives the enumeration.
\<close>

definition check_unfilled_placeholders :: "env \<Rightarrow> string \<Rightarrow> ValidationResult \<Rightarrow> ValidationResult" where
  "check_unfilled_placeholders e content r0 =
     (let placeholders = map group0 (re_findall False placeholder_re content)
      in if placeholders \<noteq> [] then
           fold (\<lambda>p r. add_info (''  Placeholder: '' @ p) r)
             (take 5 (set_order e placeholders))
             (add_error (''Found '' @ show_nat (length placeholders)
                         @ '' unfilled [REQUIRED] placeholders'') r0)
         else r0)"

section \<open>Anti-fabrication checks\<close>

definition validation_timestamp_re :: rx where
  "validation_timestamp_re =
     seqs [Lit ''**Validation Timestamp**:'', Many CSpace, Grp timestamp_shape]"

text \<open>
  \<open>check_timestamp_consistency\<close> is four blocks. Every \<open>ValueError\<close> of a date that does
  not parse is swallowed (\<open>pass\<close>): a date or time that does not parse is \<open>None\<close> here. The
  file's modification time is read from the file system.
\<close>

definition parsed_gate_date :: "string \<Rightarrow> (string \<times> datetime) option" where
  "parsed_gate_date content =
     (case re_search False date_re content of
        None \<Rightarrow> None
      | Some date_match \<Rightarrow>
          (case strptime_ymd (group1 date_match) of
             None \<Rightarrow> None
           | Some gate_date \<Rightarrow> Some (group1 date_match, gate_date)))"

definition parsed_timestamp :: "rx \<Rightarrow> string \<Rightarrow> datetime option" where
  "parsed_timestamp pattern content =
     (case re_search False pattern content of
        None \<Rightarrow> None
      | Some m \<Rightarrow> fromisoformat (group1 m))"

definition check_gate_date_not_future :: "env \<Rightarrow> string \<Rightarrow> ValidationResult \<Rightarrow> ValidationResult" where
  "check_gate_date_not_future e content r =
     (case parsed_gate_date content of
        None \<Rightarrow> r
      | Some (text, gate_date) \<Rightarrow>
          if date_lt (date_of (now e)) (date_of gate_date) then
            add_error (''FABRICATION INDICATOR: Gate date '' @ text @ '' is in the future'') r
          else r)"

definition check_invocation_not_future :: "env \<Rightarrow> string \<Rightarrow> ValidationResult \<Rightarrow> ValidationResult" where
  "check_invocation_not_future e content r =
     (case parsed_timestamp invocation_timestamp_re content of
        None \<Rightarrow> r
      | Some invoc_time \<Rightarrow>
          if datetime_lt (now e) invoc_time then
            add_error ''FABRICATION INDICATOR: Invocation timestamp is in the future'' r
          else r)"

definition check_validation_after_invocation :: "string \<Rightarrow> ValidationResult \<Rightarrow> ValidationResult" where
  "check_validation_after_invocation content r =
     (case parsed_timestamp validation_timestamp_re content of
        None \<Rightarrow> r
      | Some valid_time \<Rightarrow>
          (case parsed_timestamp invocation_timestamp_re content of
             None \<Rightarrow> r
           | Some invoc_time \<Rightarrow>
               if datetime_lt valid_time invoc_time then
                 add_error ''FABRICATION INDICATOR: Validation timestamp is before invocation timestamp'' r
               else r))"

definition check_file_mtime :: "env \<Rightarrow> string \<Rightarrow> string \<Rightarrow> ValidationResult \<Rightarrow> ValidationResult" where
  "check_file_mtime e content file_path r =
     (case fs e file_path of
        Missing \<Rightarrow> r
      | Present file_size mtime rd \<Rightarrow>
          (case parsed_gate_date content of
             None \<Rightarrow> r
           | Some (text, gate_date) \<Rightarrow>
               if date_lt mtime (date_of gate_date) then
                 (let days_diff = toordinal (date_of gate_date) - toordinal mtime
                  in if days_diff > 7 then
                       add_warning (''SUSPICIOUS: File mtime is '' @ show_nat days_diff
                                    @ '' days before claimed gate date'') r
                     else r)
               else r))"

definition check_timestamp_consistency :: "env \<Rightarrow> string \<Rightarrow> string \<Rightarrow> ValidationResult \<Rightarrow> ValidationResult" where
  "check_timestamp_consistency e content file_path r0 =
     check_file_mtime e content file_path
       (check_validation_after_invocation content
          (check_invocation_not_future e content
             (check_gate_date_not_future e content r0)))"

definition signoff_name_re :: rx where
  "signoff_name_re =
     seqs [Lit ''|'', Many CSpace,
           Grp (seqs [Many1 (CNot (CHR ''|'')), Lit ''Agent'', Many (CNot (CHR ''|''))]),
           Many CSpace, Lit ''|'', Many CSpace,
           alts [Lit ''APPROVED'', Lit ''REJECTED'', Lit ''CONDITIONAL'', Lit ''N/A''],
           Many CSpace, Lit ''|'']"

definition checklist_item_re :: rx where
  "checklist_item_re =
     seqs [Lit ''|'', Many CSpace, Many1 CDigit, Many CSpace, Lit ''|'',
           Grp (Many1 (CNot (CHR ''|''))), Lit ''|'']"

definition duplicate_message :: "nat \<Rightarrow> string" where
  "duplicate_message n =
     ''FABRICATION INDICATOR: Multiple agent responses appear identical ('' @ show_nat n
     @ '' duplicates)''"

definition unknown_agent_message :: "string \<Rightarrow> string" where
  "unknown_agent_message agent_clean =
     ''FABRICATION INDICATOR: Unknown agent '' @ quoted agent_clean @ '' in sign-off''"

text \<open>
  The summaries of the whole document (\<open>findall\<close> of the summary pattern), and their
  distinct normalised prefixes \<open>set(s.strip()[:100] for s in summaries)\<close>.
\<close>

definition summaries_of :: "string \<Rightarrow> string list" where
  "summaries_of content = map group1 (re_findall False summary_re content)"

definition unique_summaries :: "string list \<Rightarrow> string list" where
  "unique_summaries summaries = remdups (map (\<lambda>s. take 100 (strip s)) summaries)"

text \<open>
  One turn of the loop over the sign-off names. The comparisons with \<open>len(xs) / 2\<close> and
  \<open>len(xs) / 3\<close> are comparisons of an integer with a quotient; they are written with
  the multiplication on the other side.
\<close>

definition signoff_name_step :: "string \<Rightarrow> ValidationResult \<Rightarrow> ValidationResult" where
  "signoff_name_step agent r =
     (let agent_clean = strip agent;
          known_agents = REQUIRED_AGENTS @ [''PM-Architect-Agent'']
      in if agent_clean \<notin> set known_agents then
           (let found_match =
                  list_ex (\<lambda>known. sublist known agent_clean \<or> sublist agent_clean known) known_agents
            in if \<not> found_match then add_error (unknown_agent_message agent_clean) r else r)
         else r)"

text \<open>\<open>check_content_integrity\<close> is three blocks.\<close>

definition check_duplicate_summaries :: "string \<Rightarrow> ValidationResult \<Rightarrow> ValidationResult" where
  "check_duplicate_summaries content r =
     (let summaries = summaries_of content
      in if summaries \<noteq> [] then
           (let unique = unique_summaries summaries
            in if 2 * length unique < length summaries \<and> length summaries > 2 then
                 add_warning (duplicate_message (length summaries - length unique)) r
               else r)
         else r)"

definition check_checklist_variety :: "string \<Rightarrow> ValidationResult \<Rightarrow> ValidationResult" where
  "check_checklist_variety content r =
     (let checklist_items = map group1 (re_findall False checklist_item_re content)
      in if checklist_items \<noteq> [] then
           (let unique_items = remdups (map (\<lambda>item. take 50 (strip item)) checklist_items)
            in if 3 * length unique_items < length checklist_items \<and> length checklist_items > 5
               then add_warning ''FABRICATION INDICATOR: Checklist items show low variety (possible copy-paste)'' r
               else r)
         else r)"

definition check_signoff_names :: "string \<Rightarrow> ValidationResult \<Rightarrow> ValidationResult" where
  "check_signoff_names content r =
     fold signoff_name_step (map group1 (re_findall False signoff_name_re content)) r"

definition check_content_integrity :: "string \<Rightarrow> ValidationResult \<Rightarrow> ValidationResult" where
  "check_content_integrity content r0 =
     check_signoff_names content
       (check_checklist_variety content
          (check_duplicate_summaries content r0))"

text \<open>
  \<open>int(s)\<close> of the digits found and \<open>str\<close> of the number give the phase and the stage as
  they are printed into the pattern and the path. The reference to the input gate is
  searched with \<open>re.IGNORECASE\<close>.
\<close>

definition input_gate_ref_re :: "nat \<Rightarrow> rx" where
  "input_gate_ref_re phase = Lit (''phase'' @ show_nat phase @ ''-input-gate'')"

definition input_gate_path :: "nat \<Rightarrow> nat \<Rightarrow> string" where
  "input_gate_path stage phase =
     ''.claude-bus/gates/stage'' @ show_nat stage @ ''/phase'' @ show_nat phase @ ''-input-gate.md''"

definition check_sequential_consistency :: "env \<Rightarrow> string \<Rightarrow> ValidationResult \<Rightarrow> ValidationResult" where
  "check_sequential_consistency e content r0 =
     (case (re_search False gate_type_re content, re_search False phase_re content,
            re_search False stage_re content) of
        (Some gate_type_match, Some phase_match, Some stage_match) \<Rightarrow>
          (let gate_type = group1 gate_type_match;
               phase = parse_nat (group1 phase_match);
               stage = parse_nat (group1 stage_match)
           in if gate_type = ''Output'' then
                (let input_ref = (re_search True (input_gate_ref_re phase) content \<noteq> None)
                 in if \<not> input_ref \<and> \<not> path_exists e (input_gate_path stage phase) then
                      add_warning (''SEQUENCE WARNING: Phase '' @ show_nat phase
                                   @ '' Output gate has no corresponding Input gate'') r0
                    else r0)
              else r0)
      | _ \<Rightarrow> r0)"

section \<open>Git checkpoint verification\<close>

text \<open>
  The four commit patterns, all searched with \<open>re.IGNORECASE\<close>; the last one starts with
  \<open>\b\<close>. \<open>find_commit_hash\<close> is the loop that takes the first pattern that matches.
\<close>

definition commit_patterns :: "rx list" where
  "commit_patterns =
     [seqs [Lit ''**Git Checkpoint**:'', Many CSpace, Grp (Rep True 7 (Some 40) CHex)],
      seqs [Lit ''**Commit**:'', Many CSpace, Grp (Rep True 7 (Some 40) CHex)],
      seqs [Lit ''commit'', Many1 CColonSpace, Grp (Rep True 7 (Some 40) CHex)]]"

definition commit_before_stage_re :: rx where
  "commit_before_stage_re = seqs [Grp (Rep True 7 (Some 40) CHex), Many1 CSpace, Lit ''Stage'']"

fun first_match :: "rx list \<Rightarrow> string \<Rightarrow> (string \<times> string option) option" where
  "first_match [] content = None"
| "first_match (p # ps) content =
     (case re_search True p content of Some m \<Rightarrow> Some m | None \<Rightarrow> first_match ps content)"

definition find_commit_hash :: "string \<Rightarrow> string option" where
  "find_commit_hash content =
     (case first_match commit_patterns content of
        Some m \<Rightarrow> Some (group1 m)
      | None \<Rightarrow> map_option group1 (re_search_wb True commit_before_stage_re None content))"

definition commit_format_re :: rx where
  "commit_format_re = seqs [Rep True 7 (Some 40) CHex, Eos]"

text \<open>
  An empty \<open>commit_hash\<close> would be falsy in \<open>if not commit_hash\<close>; the group has at least
  seven characters, so the test is whether a pattern matched.
\<close>

definition verify_commit_hash :: "env \<Rightarrow> nat \<Rightarrow> string option \<Rightarrow> ValidationResult \<Rightarrow> ValidationResult" where
  "verify_commit_hash e phase found r0 =
     (case found of
        None \<Rightarrow>
          add_warning (''P2-005: Phase '' @ show_nat phase
                       @ '' Output gate should reference git checkpoint commit hash'') r0
      | Some commit_hash \<Rightarrow>
          if commit_hash = [] then
            add_warning (''P2-005: Phase '' @ show_nat phase
                         @ '' Output gate should reference git checkpoint commit hash'') r0
          else if mt False commit_format_re commit_hash None = [] then
            add_warning (''P2-005: Invalid commit hash format: '' @ commit_hash) r0
          else
            (case git_cat_file e commit_hash of
               GitExit returncode \<Rightarrow>
                 if returncode \<noteq> 0 then
                   add_warning (''P2-005: Commit hash '' @ take 7 commit_hash
                                @ '' not found in git history'') r0
                 else add_info (''P2-005: Git checkpoint verified: '' @ take 7 commit_hash) r0
             | GitUnavailable \<Rightarrow>
                 add_info (''P2-005: Git checkpoint referenced: '' @ take 7 commit_hash) r0))"

definition check_git_checkpoint :: "env \<Rightarrow> string \<Rightarrow> ValidationResult \<Rightarrow> ValidationResult" where
  "check_git_checkpoint e content r0 =
     (case re_search False gate_type_re content of
        None \<Rightarrow> r0
      | Some gate_type_match \<Rightarrow>
          (case re_search False phase_re content of
             None \<Rightarrow> r0
           | Some phase_match \<Rightarrow>
               (let gate_type = group1 gate_type_match;
                    phase = parse_nat (group1 phase_match)
                in if gate_type \<noteq> ''Output'' \<or> phase < 2 then r0
                   else verify_commit_hash e phase (find_commit_hash content) r0)))"

section \<open>The main validation function\<close>

text \<open>
  \<open>validate_gate\<close>: the four \<open>except\<close> branches around \<open>read_file\<close> each set
  \<open>valid = False\<close>, append one error and return; otherwise all the checks run in the
  order of the source and \<open>valid\<close> is set last.
\<close>

definition read_failure :: "string \<Rightarrow> ValidationResult" where
  "read_failure msg = add_error msg (new_result\<lparr>valid := False\<rparr>)"

definition run_checks :: "env \<Rightarrow> string \<Rightarrow> string \<Rightarrow> ValidationResult \<Rightarrow> ValidationResult" where
  "run_checks e file_path content r0 =
     (let r1 = check_required_sections content r0;
          r2 = check_metadata e content r1;
          r3 = check_agent_invocation content r2;
          r4 = snd (check_agent_responses content r3);
          r5 = check_consolidated_checklist content r4;
          r6 = check_unresolved_issues content r5;
          r7 = check_signoffs content r6;
          r8 = check_gate_decision content r7;
          r9 = check_validation_section content r8;
          r10 = check_unfilled_placeholders e content r9;
          r11 = check_timestamp_consistency e content file_path r10;
          r12 = check_content_integrity content r11;
          r13 = check_sequential_consistency e content r12
      in check_git_checkpoint e content r13)"

definition validate_gate :: "env \<Rightarrow> string \<Rightarrow> ValidationResult" where
  "validate_gate e file_path =
     (case read_file e file_path of
        Inl (FileNotFoundError msg) \<Rightarrow> read_failure msg
      | Inl (ValueError msg) \<Rightarrow> read_failure msg
      | Inl (PermissionError msg) \<Rightarrow> read_failure (''Permission denied: '' @ msg)
      | Inl (OtherError tname msg) \<Rightarrow> read_failure (''Unexpected error: '' @ tname @ '': '' @ msg)
      | Inr content \<Rightarrow>
          (let result = run_checks e file_path content new_result
           in result\<lparr>valid := (length (errors result) = 0)\<rparr>))"

section \<open>The gate workflow: collaborators\<close>

text \<open>
  \<open>run_gate_workflow\<close> calls sibling modules and external programs. Those whose code is
  not part of the scripts modelled here (the checklist table, the anomaly detector, the
  memory checkpoint, the secure event log, the audit script, \<open>git\<close>, \<open>npm\<close>, \<open>find\<close>,
  \<open>docker\<close> and the backend's health endpoint) are given by their outcome in the record
  \<open>world\<close>; \<open>None\<close> for a module is its \<open>ImportError\<close>.
\<close>

definition show_int :: "int \<Rightarrow> string" where
  "show_int i = (if i < 0 then ''-'' @ show_nat (nat (- i)) else show_nat (nat i))"

record alert =
  alert_id :: "string option"
  alert_severity :: "string option"
  alert_state :: "string option"

record checklist_item =
  item_id :: string
  item_desc :: string
  item_auto :: bool
  item_check :: string

record check_result =
  cr_id :: string
  cr_desc :: string
  cr_status :: string
  cr_message :: string

datatype proc_outcome = ProcExit nat string | ProcTimeout | ProcError string

datatype http_outcome = HttpStatus nat | HttpError string

datatype audit_outcome = AuditExit nat bool | AuditTimeout | AuditError string

datatype signoff_file = NoSignoffFile | CorruptSignoff
  | SignoffRecord "string option" "string option" "string option" "string option"

datatype severity = SEVERITY_CRITICAL | SEVERITY_HIGH | SEVERITY_OTHER

record memory_check =
  mc_passed :: bool
  mc_lessons_found :: nat
  mc_min_lessons_required :: nat
  mc_issues :: "string list"

record world =
  base :: env
  alert_manager_importable :: bool
  alerts_file :: "alert list option"
  gate_checklists :: "(int \<Rightarrow> string \<Rightarrow> checklist_item list) option"
  git_log :: "string + string"
  npm_check_types :: proc_outcome
  find_vite_root :: "string option"
  backend_health :: http_outcome
  validate_gate_importable :: bool
  signoff_files :: "string \<Rightarrow> signoff_file"
  audit_script_exists :: bool
  audit_run :: audit_outcome
  memory_health :: "string + string"
  memory_search :: proc_outcome
  anomaly_scan :: "severity list option"
  memory_checkpoint :: "memory_check option"
  secure_event_signature :: "string option"

record alert_status =
  as_can_proceed :: bool
  as_status :: string
  as_message :: string
  as_alerts :: "alert list"

text \<open>\<open>alert_manager.py\<close>: \<open>get_active_alerts\<close> and \<open>check_phase_transition\<close>.\<close>

definition load_alerts :: "world \<Rightarrow> alert list" where
  "load_alerts w = (case alerts_file w of None \<Rightarrow> [] | Some alerts \<Rightarrow> alerts)"

definition get_active_alerts :: "world \<Rightarrow> alert list" where
  "get_active_alerts w = filter (\<lambda>a. alert_state a = Some ''active'') (load_alerts w)"

definition check_phase_transition :: "world \<Rightarrow> int \<Rightarrow> alert_status" where
  "check_phase_transition w to_phase =
     (let active = get_active_alerts w;
          critical = filter (\<lambda>a. alert_severity a = Some ''critical'') active;
          high = filter (\<lambda>a. alert_severity a = Some ''high'') active;
          medium_low = filter (\<lambda>a. alert_severity a \<in> {Some ''medium'', Some ''low''}) active
      in if critical \<noteq> [] then
           \<lparr>as_can_proceed = False, as_status = ''BLOCKED'',
            as_message = ''Cannot proceed to Phase '' @ show_int to_phase, as_alerts = critical\<rparr>
         else if high \<noteq> [] then
           \<lparr>as_can_proceed = True, as_status = ''WARNING'',
            as_message = ''Proceed to Phase '' @ show_int to_phase @ '' with caution'',
            as_alerts = high\<rparr>
         else if medium_low \<noteq> [] then
           \<lparr>as_can_proceed = True, as_status = ''INFO'',
            as_message = ''Proceeding to Phase '' @ show_int to_phase, as_alerts = medium_low\<rparr>
         else
           \<lparr>as_can_proceed = True, as_status = ''OK'',
            as_message = ''Clear to proceed to Phase '' @ show_int to_phase, as_alerts = []\<rparr>)"

text \<open>
  \<open>check_blocking_alerts\<close>: the alert manager when it can be imported, otherwise the
  fallback that reads the alerts file itself.
\<close>

definition check_blocking_alerts :: "world \<Rightarrow> int \<Rightarrow> alert_status" where
  "check_blocking_alerts w to_phase =
     (if alert_manager_importable w then check_phase_transition w to_phase
      else
        (case alerts_file w of
           None \<Rightarrow>
             \<lparr>as_can_proceed = True, as_status = ''OK'', as_message = ''No alerts file found'',
              as_alerts = []\<rparr>
         | Some all_alerts \<Rightarrow>
             (let alerts = filter (\<lambda>a. alert_state a = Some ''active'') all_alerts;
                  critical = filter (\<lambda>a. alert_severity a = Some ''critical'') alerts
              in if critical \<noteq> [] then
                   \<lparr>as_can_proceed = False, as_status = ''BLOCKED'',
                    as_message = show_nat (length critical) @ '' critical alert(s) blocking transition'',
                    as_alerts = critical\<rparr>
                 else
                   \<lparr>as_can_proceed = True,
                    as_status = (if alerts = [] then ''OK'' else ''WARNING''),
                    as_message = show_nat (length alerts) @ '' active alert(s), none critical'',
                    as_alerts = alerts\<rparr>)))"

text \<open>The automatic checks of the checklist; each returns a status and a message.\<close>

definition check_git_log_checkpoint :: "world \<Rightarrow> int \<Rightarrow> int \<Rightarrow> string \<times> string" where
  "check_git_log_checkpoint w stage phase =
     (case git_log w of
        Inl m \<Rightarrow> (''SKIP'', ''Git check failed: '' @ m)
      | Inr out \<Rightarrow>
          (let logs = map ascii_lower out;
               patterns = [''stage '' @ show_int stage, ''stage'' @ show_int stage,
                           ''phase '' @ show_int phase, ''phase'' @ show_int phase,
                           ''checkpoint'', ''complete'']
           in if list_ex (\<lambda>p. sublist p logs) patterns then (''PASS'', ''Git checkpoint found'')
              else (''WARN'', ''No obvious checkpoint found in recent commits'')))"

definition check_typescript :: "world \<Rightarrow> string \<times> string" where
  "check_typescript w =
     (case npm_check_types w of
        ProcExit returncode out \<Rightarrow>
          if returncode = 0 then (''PASS'', ''TypeScript compiles successfully'')
          else (''FAIL'', ''TypeScript compilation errors'')
      | ProcTimeout \<Rightarrow> (''SKIP'', ''TypeScript check timed out'')
      | ProcError m \<Rightarrow> (''SKIP'', ''TypeScript check failed: '' @ m))"

definition check_vite_permissions :: "world \<Rightarrow> string \<times> string" where
  "check_vite_permissions w =
     (case find_vite_root w of
        Some out \<Rightarrow>
          if strip out \<noteq> [] then
            (''FAIL'', ''Root-owned .vite files found. Run: sudo rm -rf frontend/node_modules/.vite'')
          else (''PASS'', ''No permission issues in .vite cache'')
      | None \<Rightarrow> (''PASS'', ''.vite cache clean or not present''))"

definition check_backend_healthy :: "world \<Rightarrow> string \<times> string" where
  "check_backend_healthy w =
     (case backend_health w of
        HttpStatus code \<Rightarrow>
          if code = 200 then (''PASS'', ''Backend healthy at localhost:8000'')
          else (''FAIL'', ''Backend returned status '' @ show_nat code)
      | HttpError m \<Rightarrow> (''FAIL'', ''Backend not reachable: '' @ m))"

definition auto_check :: "world \<Rightarrow> int \<Rightarrow> int \<Rightarrow> string \<Rightarrow> string \<times> string" where
  "auto_check w stage phase check_name =
     (if check_name = ''git_checkpoint_exists'' then check_git_log_checkpoint w stage phase
      else if check_name = ''tests_pass'' then (''SKIP'', ''Run 'npm run test' manually to verify'')
      else if check_name = ''coverage_threshold'' then
        (''SKIP'', ''Run 'npm run test:coverage' manually to verify >= 70%'')
      else if check_name = ''typescript_compiles'' then check_typescript w
      else if check_name = ''coverage_not_decreased'' then
        (''SKIP'', ''Coverage regression check requires manual verification'')
      else if check_name = ''vite_permissions'' then check_vite_permissions w
      else if check_name = ''backend_healthy'' then check_backend_healthy w
      else if check_name = ''e2e_tests_pass'' then
        (''SKIP'', ''Run 'npm run test:e2e' manually for E2E verification'')
      else if check_name = ''bundle_size'' then
        (''SKIP'', ''Run 'npm run build' and check bundle size <= 60KB'')
      else if check_name = ''quality_checks'' then
        (''SKIP'', ''Quality checks require manual verification'')
      else (''SKIP'', ''Check '' @ quoted check_name @ '' not implemented yet''))"

definition load_checklist :: "world \<Rightarrow> int \<Rightarrow> string \<Rightarrow> checklist_item list" where
  "load_checklist w phase gate_type =
     (case gate_checklists w of None \<Rightarrow> [] | Some get_checklist \<Rightarrow> get_checklist phase gate_type)"

definition execute_auto_checks :: "world \<Rightarrow> int \<Rightarrow> int \<Rightarrow> string \<Rightarrow> checklist_item list \<Rightarrow> check_result list" where
  "execute_auto_checks w stage phase gate_type checklist =
     map (\<lambda>item. let res = auto_check w stage phase (item_check item)
                  in \<lparr>cr_id = item_id item, cr_desc = item_desc item,
                      cr_status = fst res, cr_message = snd res\<rparr>)
         (filter item_auto checklist)"

section \<open>The gate workflow: sign-off, audit and memory helpers\<close>

definition requires_user_signoff :: "int \<Rightarrow> string \<Rightarrow> bool" where
  "requires_user_signoff phase gate_type = (gate_type = ''output'' \<and> phase \<ge> 2)"

definition requires_super_ai_audit :: "int \<Rightarrow> string \<Rightarrow> bool" where
  "requires_super_ai_audit phase gate_type = (gate_type = ''output'' \<and> phase \<in> set [1, 3, 5])"

record signoff_status =
  so_required :: bool
  so_verified :: bool
  so_has_token :: bool
  so_token :: "string option"
  so_verified_at :: "string option"
  so_expires_at :: "string option"
  so_message :: string

definition signoff_path :: "int \<Rightarrow> int \<Rightarrow> string \<Rightarrow> string" where
  "signoff_path stage phase gate_type =
     ''stage'' @ show_int stage @ ''-phase'' @ show_int phase @ ''-'' @ gate_type @ ''-signoff.json''"

text \<open>
  \<open>check_signoff_status\<close>. \<open>so_has_token\<close> is whether the returned dictionary has the key
  \<open>token\<close>: the branch for a record that is not verified always sets it, to the record's
  token or to \<open>None\<close>.
\<close>

definition check_signoff_status :: "world \<Rightarrow> int \<Rightarrow> int \<Rightarrow> string \<Rightarrow> signoff_status" where
  "check_signoff_status w stage phase gate_type =
     (if \<not> requires_user_signoff phase gate_type then
        \<lparr>so_required = False, so_verified = True, so_has_token = False, so_token = None,
         so_verified_at = None, so_expires_at = None,
         so_message = ''User sign-off not required for this gate''\<rparr>
      else
        (case signoff_files w (signoff_path stage phase gate_type) of
           NoSignoffFile \<Rightarrow>
             \<lparr>so_required = True, so_verified = False, so_has_token = False, so_token = None,
              so_verified_at = None, so_expires_at = None,
              so_message = ''User sign-off required but not requested yet''\<rparr>
         | CorruptSignoff \<Rightarrow>
             \<lparr>so_required = True, so_verified = False, so_has_token = False, so_token = None,
              so_verified_at = None, so_expires_at = None,
              so_message = ''Sign-off record corrupted''\<rparr>
         | SignoffRecord st token verified_at expires_at \<Rightarrow>
             if st = Some ''VERIFIED'' then
               \<lparr>so_required = True, so_verified = True, so_has_token = False, so_token = None,
                so_verified_at = verified_at, so_expires_at = None,
                so_message = ''User sign-off verified''\<rparr>
             else
               \<lparr>so_required = True, so_verified = False, so_has_token = True, so_token = token,
                so_verified_at = None, so_expires_at = expires_at,
                so_message = ''User sign-off pending verification''\<rparr>))"

definition execute_super_ai_audit :: "world \<Rightarrow> string \<times> string" where
  "execute_super_ai_audit w =
     (if \<not> audit_script_exists w then (''SKIP'', ''super_ai_audit.py not found'')
      else
        (case audit_run w of
           AuditExit returncode is_json \<Rightarrow>
             if returncode = 0 then
               (if is_json then (''PASS'', ''Super-AI audit completed'')
                else (''PASS'', ''Super-AI audit completed (non-JSON output)''))
             else (''WARN'', ''Super-AI audit returned non-zero: '' @ show_nat returncode)
         | AuditTimeout \<Rightarrow> (''SKIP'', ''Super-AI audit timed out (>2min)'')
         | AuditError m \<Rightarrow> (''SKIP'', ''Super-AI audit failed: '' @ m)))"

definition check_memory_service_health :: "world \<Rightarrow> string \<times> string" where
  "check_memory_service_health w =
     (case memory_health w of
        Inl m \<Rightarrow> (''SKIP'', ''Memory health check failed: '' @ m)
      | Inr out \<Rightarrow>
          if sublist ''Status:           healthy'' out then (''PASS'', ''Memory service healthy'')
          else if sublist ''ChromaDB:         Connected'' out then (''PASS'', ''ChromaDB connected'')
          else (''WARN'', ''Memory service may be unhealthy''))"

record memory_query =
  mq_status :: string
  mq_count :: nat
  mq_message :: string
  mq_memories :: "string list"

definition found_memories_re :: rx where
  "found_memories_re = seqs [Lit ''Found '', Grp (Many1 CDigit), Lit '' memories'']"

text \<open>\<open>line.split(']', 1)[1]\<close> for a line that contains \<open>]\<close>.\<close>

definition after_bracket :: "string \<Rightarrow> string" where
  "after_bracket line = drop 1 (dropWhile (\<lambda>c. c \<noteq> CHR '']'') line)"

definition memory_titles :: "string \<Rightarrow> string list" where
  "memory_titles out =
     map (take 80)
       (filter (\<lambda>title. title \<noteq> [])
          (map (\<lambda>line. strip (after_bracket line))
             (filter (\<lambda>line. prefix ''['' (strip line) \<and> CHR '']'' \<in> set line)
                (split_lines out))))"

definition query_relevant_memories :: "world \<Rightarrow> memory_query" where
  "query_relevant_memories w =
     (case memory_search w of
        ProcExit returncode out \<Rightarrow>
          if returncode = 0 then
            (if sublist ''Found 0 memories'' out then
               \<lparr>mq_status = ''OK'', mq_count = 0, mq_message = ''No related memories found'',
                mq_memories = []\<rparr>
             else
               (let count = (case re_search False found_memories_re out of
                               Some m \<Rightarrow> parse_nat (group1 m) | None \<Rightarrow> 0)
                in \<lparr>mq_status = ''OK'', mq_count = count,
                     mq_message = ''Found '' @ show_nat count @ '' related memories'',
                     mq_memories = take 5 (memory_titles out)\<rparr>))
          else
            \<lparr>mq_status = ''SKIP'', mq_count = 0,
             mq_message = ''Memory query failed (service may be down)'', mq_memories = []\<rparr>
      | ProcTimeout \<Rightarrow>
          \<lparr>mq_status = ''SKIP'', mq_count = 0, mq_message = ''Memory query timed out'',
           mq_memories = []\<rparr>
      | ProcError m \<Rightarrow>
          \<lparr>mq_status = ''SKIP'', mq_count = 0, mq_message = ''Memory query error: '' @ m,
           mq_memories = []\<rparr>)"

section \<open>The gate workflow: the steps\<close>

record workflow_step =
  step :: string
  step_status :: string
  step_message :: string
  step_detail :: "string list"

record action =
  action_name :: string
  action_command :: "string option"
  action_message :: "string option"
  action_items :: "string list"

text \<open>
  The result dictionary. The fields \<open>timestamp\<close> and \<open>version\<close> are constants of the run
  and are left out; the lists some steps attach (alert ids, failed items, the first five
  errors) are a step's \<open>step_detail\<close>.
\<close>

record workflow_result =
  r_stage :: int
  r_phase :: int
  r_gate_type :: string
  steps :: "workflow_step list"
  status :: string
  can_proceed :: bool
  actions_required :: "action list"
  checklist_results :: "check_result list"
  relevant_memories :: "string list"

definition initial_result :: "int \<Rightarrow> int \<Rightarrow> string \<Rightarrow> workflow_result" where
  "initial_result stage phase gate_type =
     \<lparr>r_stage = stage, r_phase = phase, r_gate_type = gate_type, steps = [], status = ''PASS'',
      can_proceed = True, actions_required = [], checklist_results = [], relevant_memories = []\<rparr>"

definition add_step :: "string \<Rightarrow> string \<Rightarrow> string \<Rightarrow> string list \<Rightarrow> workflow_result \<Rightarrow> workflow_result" where
  "add_step name st msg det r =
     r\<lparr>steps := steps r @ [\<lparr>step = name, step_status = st, step_message = msg, step_detail = det\<rparr>]\<rparr>"

definition add_action :: "string \<Rightarrow> string option \<Rightarrow> string option \<Rightarrow> string list \<Rightarrow> workflow_result \<Rightarrow> workflow_result" where
  "add_action name cmd msg its r =
     r\<lparr>actions_required := actions_required r @
        [\<lparr>action_name = name, action_command = cmd, action_message = msg, action_items = its\<rparr>]\<rparr>"

text \<open>Step 0: blocking alerts.\<close>

definition step_alert_check :: "world \<Rightarrow> int \<Rightarrow> string \<Rightarrow> bool \<Rightarrow> workflow_result \<Rightarrow> workflow_result" where
  "step_alert_check w phase gate_type skip_alerts r =
     (if skip_alerts then add_step ''alert_check'' ''SKIP'' ''Alert check skipped (testing mode)'' [] r
      else
        (let next_phase = (if gate_type = ''output'' then phase + 1 else phase);
             alert_st = check_blocking_alerts w next_phase
         in if \<not> as_can_proceed alert_st then
              add_action ''resolve_alerts'' (Some ''python3 .claude-bus/scripts/alert_manager.py list'')
                (Some ''Resolve critical alerts before proceeding'') []
                ((add_step ''alert_check'' ''BLOCKED'' (as_message alert_st)
                    (map (\<lambda>a. case alert_id a of None \<Rightarrow> ''unknown'' | Some i \<Rightarrow> i) (as_alerts alert_st)) r)
                 \<lparr>status := ''BLOCKED'', can_proceed := False\<rparr>)
            else if as_status alert_st = ''WARNING'' then
              add_step ''alert_check'' ''WARN'' (as_message alert_st) [] r
            else add_step ''alert_check'' ''PASS'' ''No blocking alerts'' [] r))"

text \<open>
  Step 1: the checklist. A failed automatic check is recorded in the step; the two
  assignments that would fail the workflow are commented out in the source.
\<close>

definition count_status :: "string list \<Rightarrow> check_result list \<Rightarrow> nat" where
  "count_status sts rs = length (filter (\<lambda>c. cr_status c \<in> set sts) rs)"

definition step_checklist :: "world \<Rightarrow> int \<Rightarrow> int \<Rightarrow> string \<Rightarrow> workflow_result \<Rightarrow> workflow_result" where
  "step_checklist w stage phase gate_type r =
     (let checklist = load_checklist w phase gate_type
      in if checklist \<noteq> [] then
           (let check_results = execute_auto_checks w stage phase gate_type checklist;
                r1 = r\<lparr>checklist_results := check_results\<rparr>;
                passed = count_status [''PASS''] check_results;
                failed = count_status [''FAIL''] check_results;
                skipped = count_status [''SKIP'', ''WARN''] check_results;
                r2 = (if failed > 0 then
                        add_step ''checklist_auto_verify'' ''FAIL''
                          (''Auto-checks: '' @ show_nat passed @ '' passed, '' @ show_nat failed
                           @ '' failed, '' @ show_nat skipped @ '' skipped'')
                          (map cr_id (filter (\<lambda>c. cr_status c = ''FAIL'') check_results)) r1
                      else
                        add_step ''checklist_auto_verify'' ''PASS''
                          (''Auto-checks: '' @ show_nat passed @ '' passed, '' @ show_nat skipped
                           @ '' skipped/manual'') [] r1);
                manual_items = filter (\<lambda>item. \<not> item_auto item) checklist
            in if manual_items \<noteq> [] then
                 add_action ''manual_checklist'' None
                   (Some (show_nat (length manual_items) @ '' items require manual verification''))
                   (map item_desc manual_items) r2
               else r2)
         else add_step ''checklist_auto_verify'' ''SKIP'' ''No checklist defined for this gate'' [] r)"

text \<open>Step 2: the gate record, when a file is given (\<open>if gate_file\<close>: not \<open>None\<close>, not empty).\<close>

definition step_validate_gate_record :: "world \<Rightarrow> string option \<Rightarrow> workflow_result \<Rightarrow> workflow_result" where
  "step_validate_gate_record w gate_file r =
     (case gate_file of
        None \<Rightarrow> add_step ''validate_gate_record'' ''SKIP'' ''No gate file provided'' [] r
      | Some gate_path \<Rightarrow>
          if gate_path = [] then add_step ''validate_gate_record'' ''SKIP'' ''No gate file provided'' [] r
          else if \<not> path_exists (base w) gate_path then
            (add_step ''validate_gate_record'' ''FAIL'' (''Gate file not found: '' @ gate_path) [] r)
            \<lparr>status := ''FAIL'', can_proceed := False\<rparr>
          else if \<not> validate_gate_importable w then
            add_step ''validate_gate_record'' ''SKIP'' ''validate_gate.py not available'' [] r
          else
            (let validation = validate_gate (base w) gate_path
             in if valid validation then
                  add_step ''validate_gate_record'' ''PASS'' ''Gate record validated successfully'' [] r
                else
                  (add_step ''validate_gate_record'' ''FAIL''
                     (''Validation failed with '' @ show_nat (length (errors validation)) @ '' errors'')
                     (take 5 (errors validation)) r)
                  \<lparr>status := ''FAIL'', can_proceed := False\<rparr>))"

text \<open>Step 3: the user's sign-off.\<close>

definition step_user_signoff :: "world \<Rightarrow> int \<Rightarrow> int \<Rightarrow> string \<Rightarrow> bool \<Rightarrow> workflow_result \<Rightarrow> workflow_result" where
  "step_user_signoff w stage phase gate_type skip_signoff r =
     (if skip_signoff then
        add_step ''user_signoff'' ''SKIP'' ''Sign-off check skipped (testing mode)'' [] r
      else
        (let so = check_signoff_status w stage phase gate_type
         in if \<not> so_required so then add_step ''user_signoff'' ''NOT_REQUIRED'' (so_message so) [] r
            else if so_verified so then
              add_step ''user_signoff'' ''VERIFIED'' ''User sign-off confirmed'' [] r
            else
              (let r1 = (add_step ''user_signoff'' ''PENDING'' (so_message so) [] r)
                          \<lparr>status := ''PENDING'', can_proceed := False\<rparr>
               in if so_has_token so then
                    add_action ''verify_signoff''
                      (Some (''python3 .claude-bus/scripts/user_signoff.py verify --token ''
                             @ (case so_token so of None \<Rightarrow> ''None'' | Some t \<Rightarrow> t)))
                      None [] r1
                  else
                    add_action ''request_signoff''
                      (Some (''python3 .claude-bus/scripts/user_signoff.py request --stage ''
                             @ show_int stage @ '' --phase '' @ show_int phase @ '' --type '' @ gate_type))
                      None [] r1)))"

text \<open>Step 4: the Super-AI audit. No audit outcome has the status \<open>FAIL\<close>.\<close>

definition step_super_ai_audit :: "world \<Rightarrow> int \<Rightarrow> string \<Rightarrow> bool \<Rightarrow> workflow_result \<Rightarrow> workflow_result" where
  "step_super_ai_audit w phase gate_type skip_audit r =
     (if skip_audit then
        add_step ''super_ai_audit'' ''SKIP'' ''Super-AI audit skipped (testing mode)'' [] r
      else if requires_super_ai_audit phase gate_type then
        (let audit_result = execute_super_ai_audit w;
             r1 = add_step ''super_ai_audit'' (fst audit_result) (snd audit_result) [] r
         in if fst audit_result = ''FAIL'' then
              add_action ''review_audit'' None
                (Some ''Super-AI audit found issues requiring review'') [] r1
            else r1)
      else
        add_step ''super_ai_audit'' ''NOT_REQUIRED'' ''Super-AI audit not required for this gate'' [] r)"

text \<open>Step 5: the memory query.\<close>

definition step_memory_query :: "world \<Rightarrow> workflow_result \<Rightarrow> workflow_result" where
  "step_memory_query w r =
     (let health = check_memory_service_health w
      in if fst health = ''PASS'' then
           (let q = query_relevant_memories w;
                r1 = add_step ''memory_query'' (mq_status q) (mq_message q) [] r
            in if mq_count q > 0 then
                 add_action ''review_memories'' None
                   (Some (''Review '' @ show_nat (mq_count q)
                          @ '' related memories from previous stages''))
                   (take 3 (mq_memories q))
                   (r1\<lparr>relevant_memories := mq_memories q\<rparr>)
               else r1)
         else add_step ''memory_query'' (fst health) (snd health) [] r)"

text \<open>Step 6: anomaly detection.\<close>

definition step_anomaly_detection :: "world \<Rightarrow> workflow_result \<Rightarrow> workflow_result" where
  "step_anomaly_detection w r =
     (case anomaly_scan w of
        None \<Rightarrow> add_step ''anomaly_detection'' ''SKIP'' ''anomaly_detector.py not available'' [] r
      | Some anomalies \<Rightarrow>
          (let critical_count = length (filter (\<lambda>a. a = SEVERITY_CRITICAL) anomalies);
               high_count = length (filter (\<lambda>a. a = SEVERITY_HIGH) anomalies)
           in if critical_count > 0 then
                (add_step ''anomaly_detection'' ''FAIL''
                   (''Detected '' @ show_nat critical_count @ '' CRITICAL anomalies'') [] r)
                \<lparr>can_proceed := False, status := ''FAIL''\<rparr>
              else if high_count > 0 then
                add_step ''anomaly_detection'' ''WARN''
                  (''Detected '' @ show_nat high_count
                   @ '' HIGH severity anomalies (review recommended)'') [] r
              else add_step ''anomaly_detection'' ''PASS'' ''No critical anomalies detected'' [] r))"

text \<open>Step 7: the memory checkpoint, for output gates from phase 2 on.\<close>

definition step_memory_checkpoint :: "world \<Rightarrow> int \<Rightarrow> string \<Rightarrow> workflow_result \<Rightarrow> workflow_result" where
  "step_memory_checkpoint w phase gate_type r =
     (if gate_type = ''output'' \<and> phase \<ge> 2 then
        (case memory_checkpoint w of
           None \<Rightarrow> add_step ''memory_checkpoint'' ''SKIP'' ''memory_checkpoint.py not available'' [] r
         | Some mem_check \<Rightarrow>
             if mc_passed mem_check then
               add_step ''memory_checkpoint'' ''PASS''
                 (''Lessons stored: '' @ show_nat (mc_lessons_found mem_check) @ ''/''
                  @ show_nat (mc_min_lessons_required mem_check) @ '' required'') [] r
             else
               add_action ''store_lessons''
                 (Some ''docker exec gpt-oss-backend python scripts/memory_cli.py store --help'')
                 (Some ''Store lessons to memory before gate passage'') []
                 (add_step ''memory_checkpoint'' ''WARN''
                    (''Missing lessons: '' @ show_nat (mc_lessons_found mem_check) @ ''/''
                     @ show_nat (mc_min_lessons_required mem_check))
                    (mc_issues mem_check) r))
      else
        add_step ''memory_checkpoint'' ''NOT_REQUIRED''
          ''Memory checkpoint not required for this gate'' [] r)"

text \<open>Step 8: the secure event log; the step's detail is the signature.\<close>

definition step_secure_event_log :: "world \<Rightarrow> workflow_result \<Rightarrow> workflow_result" where
  "step_secure_event_log w r =
     (case secure_event_signature w of
        Some signature \<Rightarrow>
          add_step ''secure_event_log'' ''PASS'' ''Event logged with HMAC signature'' [signature] r
      | None \<Rightarrow> add_step ''secure_event_log'' ''SKIP'' ''secure_events.py not available'' [] r)"

section \<open>The gate workflow: the run\<close>

text \<open>The arguments of \<open>run_gate_workflow\<close> (\<open>json_output\<close> only selects the printing).\<close>

record workflow_args =
  stage :: int
  phase :: int
  gate_type :: string
  gate_file :: "string option"
  skip_signoff :: bool
  skip_alerts :: bool
  skip_audit :: bool

text \<open>The fixed sequence of steps, in the order in which the source runs them.\<close>

definition workflow_steps :: "world \<Rightarrow> workflow_args \<Rightarrow> (workflow_result \<Rightarrow> workflow_result) list" where
  "workflow_steps w a =
     [step_alert_check w (phase a) (gate_type a) (skip_alerts a),
      step_checklist w (stage a) (phase a) (gate_type a),
      step_validate_gate_record w (gate_file a),
      step_user_signoff w (stage a) (phase a) (gate_type a) (skip_signoff a),
      step_super_ai_audit w (phase a) (gate_type a) (skip_audit a),
      step_memory_query w,
      step_anomaly_detection w,
      step_memory_checkpoint w (phase a) (gate_type a),
      step_secure_event_log w]"

text \<open>
  \<open>run_steps ks r\<close> is the list of the results after each step, starting with \<open>r\<close>;
  \<open>run_gate_workflow\<close> returns the last of them.
\<close>

fun run_steps :: "('s \<Rightarrow> 's) list \<Rightarrow> 's \<Rightarrow> 's list" where
  "run_steps [] r = [r]"
| "run_steps (f # ks) r = r # run_steps ks (f r)"

definition workflow_trace :: "world \<Rightarrow> workflow_args \<Rightarrow> workflow_result list" where
  "workflow_trace w a =
     run_steps (workflow_steps w a) (initial_result (stage a) (phase a) (gate_type a))"




section \<open>Vocabulary of the statements about the validator\<close>

text \<open>
  \<open>grows r r'\<close>: the three lists of \<open>r'\<close> are those of \<open>r\<close> with entries appended. Every
  check only appends.
\<close>

definition grows :: "ValidationResult \<Rightarrow> ValidationResult \<Rightarrow> bool" where
  "grows r r' = (prefix (errors r) (errors r') \<and> prefix (warnings r) (warnings r')
                 \<and> prefix (info r) (info r'))"

text \<open>
  A path that cannot be read as a gate record: no such file, a file of more than
  1,000,000 bytes, a file that is not valid UTF-8, or a text that is empty or all
  whitespace.
\<close>

definition unreadable :: "env \<Rightarrow> string \<Rightarrow> bool" where
  "unreadable e p =
     (case fs e p of
        Missing \<Rightarrow> True
      | Present file_size mtime rd \<Rightarrow>
          file_size > 1000000 \<or>
          (case rd of
             NotUtf8 m \<Rightarrow> True
           | Text content \<Rightarrow> list_all is_space content
           | _ \<Rightarrow> False))"

text \<open>
  A file system with a missing file, a file that is too large, a file of blanks and a file
  that does not decode.
\<close>

definition env_files :: env where
  "env_files =
     \<lparr>now = mk_datetime 2025 12 20 10 0 0 0,
      fs = (\<lambda>p. if p = ''large.md'' then Present 1000001 (mk_date 2025 12 14) (Text ''# Gate'')
                 else if p = ''blank.md'' then Present 3 (mk_date 2025 12 14) (Text ('' '' @ [NL] @ '' ''))
                 else if p = ''latin1.md'' then Present 10 (mk_date 2025 12 14) (NotUtf8 ''invalid start byte'')
                 else Missing),
      git_cat_file = (\<lambda>h. GitUnavailable), set_order = remdups\<rparr>"

section \<open>Vocabulary of the statements about the workflow\<close>




text \<open>
  A world with one active critical alert, no sign-off record and no optional collaborator,
  and the arguments of \<open>workflow --stage 5 --phase 2 --type output --skip-audit\<close>.
\<close>

definition env_quiet :: env where
  "env_quiet = \<lparr>now = mk_datetime 2025 12 20 10 0 0 0, fs = (\<lambda>p. Missing),
     git_cat_file = (\<lambda>h. GitUnavailable), set_order = remdups\<rparr>"

definition world_blocked :: world where
  "world_blocked =
     \<lparr>base = env_quiet, alert_manager_importable = True,
      alerts_file = Some [\<lparr>alert_id = Some ''ALERT-1'', alert_severity = Some ''critical'',
                           alert_state = Some ''active''\<rparr>],
      gate_checklists = None, git_log = Inl ''git not found'', npm_check_types = ProcTimeout,
      find_vite_root = None, backend_health = HttpError ''connection refused'',
      validate_gate_importable = True, signoff_files = (\<lambda>p. NoSignoffFile),
      audit_script_exists = False, audit_run = AuditTimeout,
      memory_health = Inl ''docker not found'', memory_search = ProcTimeout,
      anomaly_scan = None, memory_checkpoint = None, secure_event_signature = None\<rparr>"

definition args_stage5_phase2_output :: workflow_args where
  "args_stage5_phase2_output =
     \<lparr>stage = 5, phase = 2, gate_type = ''output'', gate_file = None, skip_signoff = False,
      skip_alerts = False, skip_audit = True\<rparr>"

section \<open>The checks only append to the result\<close>

lemma grows_refl [simp, intro!]: "grows r r"
  by (simp add: grows_def)

lemma grows_trans: "grows a b \<Longrightarrow> grows b c \<Longrightarrow> grows a c"
  by (auto simp: grows_def)

lemma grows_add [intro!]:
  "grows r r' \<Longrightarrow> grows r (add_error e r')"
  "grows r r' \<Longrightarrow> grows r (add_warning e r')"
  "grows r r' \<Longrightarrow> grows r (add_info e r')"
  by (auto simp: grows_def add_error_def add_warning_def add_info_def)

lemma grows_fold:
  assumes "\<And>x r. grows r (f x r)"
  shows "grows r (fold f xs r)"
proof (induction xs arbitrary: r)
  case Nil
  then show ?case by simp
next
  case (Cons x xs)
  have "grows r (f x r)" by (rule assms)
  moreover have "grows (f x r) (fold f xs (f x r))" by (rule Cons.IH)
  ultimately show ?case using grows_trans by simp
qed

lemma grows_fold_snd:
  assumes "\<And>x st. grows (snd st) (snd (f x st))"
  shows "grows (snd st) (snd (fold f xs st))"
proof (induction xs arbitrary: st)
  case Nil
  then show ?case by simp
next
  case (Cons x xs)
  have "grows (snd st) (snd (f x st))" by (rule assms)
  moreover have "grows (snd (f x st)) (snd (fold f xs (f x st)))" by (rule Cons.IH)
  ultimately show ?case using grows_trans by simp
qed

lemma grows_check_required_sections: "grows r (check_required_sections content r)"
  unfolding check_required_sections_def by (rule grows_fold) auto

lemma grows_metadata_fields:
  "grows r (check_stage_field content r)"
  "grows r (check_phase_field content r)"
  "grows r (check_gate_type_field content r)"
  "grows r (check_date_field e content r)"
  "grows r (check_status_field content r)"
  unfolding check_stage_field_def check_phase_field_def check_gate_type_field_def
    check_date_field_def check_status_field_def
  by (auto split: option.splits)

lemma grows_check_metadata: "grows r (check_metadata e content r)"
  unfolding check_metadata_def
  apply (rule grows_trans[OF _ grows_metadata_fields(5)])
  apply (rule grows_trans[OF _ grows_metadata_fields(4)])
  apply (rule grows_trans[OF _ grows_metadata_fields(3)])
  apply (rule grows_trans[OF _ grows_metadata_fields(2)])
  apply (rule grows_metadata_fields(1))
  done

lemma grows_invocation_step: "grows (snd st) (snd (invocation_step sec agent st))"
  unfolding invocation_step_def by (auto split: option.splits)

lemma grows_check_invocation_timestamp: "grows r (check_invocation_timestamp sec r)"
  unfolding check_invocation_timestamp_def by (auto split: option.splits)

lemma grows_check_invocation_section: "grows r (check_invocation_section sec r)"
proof -
  let ?r1 = "check_invocation_timestamp sec r"
  have b: "grows ?r1 (snd (fold (invocation_step sec) REQUIRED_AGENTS (0, ?r1)))"
    using grows_fold_snd[of "invocation_step sec" "(0, ?r1)" REQUIRED_AGENTS]
      grows_invocation_step by simp
  have c: "grows r (snd (fold (invocation_step sec) REQUIRED_AGENTS (0, ?r1)))"
    using grows_trans[OF grows_check_invocation_timestamp b] .
  show ?thesis
    unfolding check_invocation_section_def Let_def using c by auto
qed

lemma grows_check_agent_invocation: "grows r (check_agent_invocation content r)"
  unfolding check_agent_invocation_def
  by (auto simp: grows_check_invocation_section split: option.splits)

lemma grows_response_step: "grows (snd st) (snd (response_step sec agent st))"
  unfolding response_step_def Let_def by (auto split: option.splits)

lemma grows_check_agent_responses: "grows r (snd (check_agent_responses content r))"
proof (cases "extract_section ''## Section 2: Agent Responses'' ''## Section 3:'' content")
  case None
  then show ?thesis by (auto simp: check_agent_responses_def)
next
  case (Some sec)
  then show ?thesis
    using grows_fold_snd[of "response_step sec" "([], r)" REQUIRED_AGENTS] grows_response_step
    by (simp add: check_agent_responses_def)
qed

lemma grows_checklist_row_step: "grows r (checklist_row_step ir r)"
  unfolding checklist_row_step_def Let_def by auto

lemma grows_check_consolidated_checklist: "grows r (check_consolidated_checklist content r)"
proof -
  have "grows r (fold checklist_row_step xs (add_info m r))" for xs m
    using grows_trans[OF _ grows_fold[of checklist_row_step "add_info m r" xs]]
      grows_checklist_row_step by blast
  then show ?thesis
    unfolding check_consolidated_checklist_def Let_def by (auto split: option.splits)
qed

lemma grows_check_unresolved_issues: "grows r (check_unresolved_issues content r)"
  unfolding check_unresolved_issues_def Let_def by (auto split: option.splits)

lemma grows_check_signoffs: "grows r (check_signoffs content r)"
proof -
  have "grows r' (fold (\<lambda>agent r.
                      if re_search False
                           (signoff_row_re agent [''APPROVED'', ''REJECTED'', ''CONDITIONAL'', ''N/A''])
                           sec = None
                      then add_error (quoted agent @ '' sign-off missing or invalid'') r else r)
                REQUIRED_AGENTS r')" for r' sec
    by (rule grows_fold) auto
  then have "grows r (fold (\<lambda>agent r.
                      if re_search False
                           (signoff_row_re agent [''APPROVED'', ''REJECTED'', ''CONDITIONAL'', ''N/A''])
                           sec = None
                      then add_error (quoted agent @ '' sign-off missing or invalid'') r else r)
                REQUIRED_AGENTS r')" if "grows r r'" for r' sec
    using that grows_trans by blast
  then show ?thesis
    unfolding check_signoffs_def Let_def by (auto split: option.splits)
qed

lemma grows_cross_validate_decision: "grows r (cross_validate_decision content sec d r)"
  unfolding cross_validate_decision_def Let_def by auto

lemma grows_check_gate_decision: "grows r (check_gate_decision content r)"
  unfolding check_gate_decision_def
  by (auto simp: grows_cross_validate_decision split: option.splits)

lemma grows_check_validation_section: "grows r (check_validation_section content r)"
  unfolding check_validation_section_def Let_def by (auto split: option.splits)

lemma grows_check_unfilled_placeholders: "grows r (check_unfilled_placeholders e content r)"
proof -
  have "grows r (fold (\<lambda>p r. add_info (''  Placeholder: '' @ p) r) xs (add_error m r))" for xs m
    using grows_trans[OF _ grows_fold[of "\<lambda>p r. add_info (''  Placeholder: '' @ p) r" "add_error m r" xs]]
    by blast
  then show ?thesis
    unfolding check_unfilled_placeholders_def Let_def by auto
qed

lemma grows_timestamp_blocks:
  "grows r (check_gate_date_not_future e content r)"
  "grows r (check_invocation_not_future e content r)"
  "grows r (check_validation_after_invocation content r)"
  "grows r (check_file_mtime e content p r)"
  unfolding check_gate_date_not_future_def check_invocation_not_future_def
    check_validation_after_invocation_def check_file_mtime_def Let_def
  by (auto split: option.splits file_state.splits)

lemma grows_check_timestamp_consistency: "grows r (check_timestamp_consistency e content p r)"
  unfolding check_timestamp_consistency_def
  apply (rule grows_trans[OF _ grows_timestamp_blocks(4)])
  apply (rule grows_trans[OF _ grows_timestamp_blocks(3)])
  apply (rule grows_trans[OF _ grows_timestamp_blocks(2)])
  apply (rule grows_timestamp_blocks(1))
  done

lemma grows_signoff_name_step: "grows r (signoff_name_step agent r)"
  unfolding signoff_name_step_def Let_def by auto

lemma grows_integrity_blocks:
  "grows r (check_duplicate_summaries content r)"
  "grows r (check_checklist_variety content r)"
  "grows r (check_signoff_names content r)"
  unfolding check_duplicate_summaries_def check_checklist_variety_def check_signoff_names_def Let_def
  by (auto intro!: grows_fold grows_signoff_name_step)

lemma grows_check_content_integrity: "grows r (check_content_integrity content r)"
  unfolding check_content_integrity_def
  apply (rule grows_trans[OF _ grows_integrity_blocks(3)])
  apply (rule grows_trans[OF _ grows_integrity_blocks(2)])
  apply (rule grows_integrity_blocks(1))
  done

lemma grows_check_sequential_consistency: "grows r (check_sequential_consistency e content r)"
  unfolding check_sequential_consistency_def Let_def by (auto split: option.splits)

lemma grows_verify_commit_hash: "grows r (verify_commit_hash e n found r)"
  unfolding verify_commit_hash_def by (auto split: option.splits git_outcome.splits)

lemma grows_check_git_checkpoint: "grows r (check_git_checkpoint e content r)"
  unfolding check_git_checkpoint_def Let_def
  by (auto simp: grows_verify_commit_hash split: option.splits)

lemma grows_run_checks: "grows r (run_checks e p content r)"
  unfolding run_checks_def Let_def
  apply (rule grows_trans[OF _ grows_check_git_checkpoint])
  apply (rule grows_trans[OF _ grows_check_sequential_consistency])
  apply (rule grows_trans[OF _ grows_check_content_integrity])
  apply (rule grows_trans[OF _ grows_check_timestamp_consistency])
  apply (rule grows_trans[OF _ grows_check_unfilled_placeholders])
  apply (rule grows_trans[OF _ grows_check_validation_section])
  apply (rule grows_trans[OF _ grows_check_gate_decision])
  apply (rule grows_trans[OF _ grows_check_signoffs])
  apply (rule grows_trans[OF _ grows_check_unresolved_issues])
  apply (rule grows_trans[OF _ grows_check_consolidated_checklist])
  apply (rule grows_trans[OF _ grows_check_agent_responses])
  apply (rule grows_trans[OF _ grows_check_agent_invocation])
  apply (rule grows_trans[OF _ grows_check_metadata])
  apply (rule grows_check_required_sections)
  done

lemma grows_after_invocation:
  "grows (check_agent_invocation content
            (check_metadata e content (check_required_sections content r)))
         (run_checks e p content r)"
  unfolding run_checks_def Let_def
  apply (rule grows_trans[OF _ grows_check_git_checkpoint])
  apply (rule grows_trans[OF _ grows_check_sequential_consistency])
  apply (rule grows_trans[OF _ grows_check_content_integrity])
  apply (rule grows_trans[OF _ grows_check_timestamp_consistency])
  apply (rule grows_trans[OF _ grows_check_unfilled_placeholders])
  apply (rule grows_trans[OF _ grows_check_validation_section])
  apply (rule grows_trans[OF _ grows_check_gate_decision])
  apply (rule grows_trans[OF _ grows_check_signoffs])
  apply (rule grows_trans[OF _ grows_check_unresolved_issues])
  apply (rule grows_trans[OF _ grows_check_consolidated_checklist])
  apply (rule grows_check_agent_responses)
  done

section \<open>The result of \<open>validate_gate\<close>\<close>

lemma validate_gate_valid_iff: "valid (validate_gate e p) = (errors (validate_gate e p) = [])"
  by (simp add: validate_gate_def read_failure_def add_error_def new_result_def Let_def
      split: sum.splits read_error.splits)

lemma dropWhile_all_iff: "(\<forall>x \<in> set (dropWhile P xs). P x) = (\<forall>x \<in> set xs. P x)"
proof
  assume a: "\<forall>x \<in> set (dropWhile P xs). P x"
  have "dropWhile P xs = []"
  proof (rule ccontr)
    assume ne: "dropWhile P xs \<noteq> []"
    then have "\<not> P (hd (dropWhile P xs))" by (rule hd_dropWhile)
    moreover have "hd (dropWhile P xs) \<in> set (dropWhile P xs)" using ne by simp
    ultimately show False using a by blast
  qed
  then show "\<forall>x \<in> set xs. P x" by (simp add: dropWhile_eq_Nil_conv)
next
  assume "\<forall>x \<in> set xs. P x"
  then show "\<forall>x \<in> set (dropWhile P xs). P x" by (meson set_dropWhileD)
qed

lemma strip_empty_iff: "(strip s = []) = list_all is_space s"
proof -
  have "(strip s = []) = (\<forall>x \<in> set (rev (dropWhile is_space s)). is_space x)"
    unfolding strip_def rev_is_Nil_conv dropWhile_eq_Nil_conv ..
  also have "\<dots> = (\<forall>x \<in> set (dropWhile is_space s). is_space x)" by simp
  also have "\<dots> = (\<forall>x \<in> set s. is_space x)" by (rule dropWhile_all_iff)
  finally show ?thesis by (simp add: list_all_iff)
qed

lemma read_file_unreadable:
  assumes "unreadable e p"
  shows "\<exists>msg. read_file e p = Inl (FileNotFoundError msg) \<or> read_file e p = Inl (ValueError msg)"
  using assms
  by (auto simp: unreadable_def read_file_def MAX_FILE_SIZE_def strip_empty_iff
      split: file_state.splits read_outcome.splits)

lemma required_sections_entries:
  "length (errors (fold (\<lambda>section r.
             if \<not> sublist section content then
               add_error (f section) r
             else add_info (g section) r) xs r))
   + length (info (fold (\<lambda>section r.
             if \<not> sublist section content then
               add_error (f section) r
             else add_info (g section) r) xs r))
   = length (errors r) + length (info r) + length xs"
  by (induction xs arbitrary: r) (auto simp: add_error_def add_info_def)

lemma check_required_sections_entries:
  "length (errors (check_required_sections content r)) + length (info (check_required_sections content r))
   = length (errors r) + length (info r) + 7"
  unfolding check_required_sections_def
  by (subst required_sections_entries) (simp add: REQUIRED_SECTIONS_def)

lemma grows_entries:
  "grows r r' \<Longrightarrow> length (errors r) + length (info r) \<le> length (errors r') + length (info r')"
  by (auto simp: grows_def dest!: prefix_length_le)

lemma grows_after_required_sections:
  "grows (check_required_sections content r) (run_checks e p content r)"
  unfolding run_checks_def Let_def
  apply (rule grows_trans[OF _ grows_check_git_checkpoint])
  apply (rule grows_trans[OF _ grows_check_sequential_consistency])
  apply (rule grows_trans[OF _ grows_check_content_integrity])
  apply (rule grows_trans[OF _ grows_check_timestamp_consistency])
  apply (rule grows_trans[OF _ grows_check_unfilled_placeholders])
  apply (rule grows_trans[OF _ grows_check_validation_section])
  apply (rule grows_trans[OF _ grows_check_gate_decision])
  apply (rule grows_trans[OF _ grows_check_signoffs])
  apply (rule grows_trans[OF _ grows_check_unresolved_issues])
  apply (rule grows_trans[OF _ grows_check_consolidated_checklist])
  apply (rule grows_trans[OF _ grows_check_agent_responses])
  apply (rule grows_trans[OF _ grows_check_agent_invocation])
  apply (rule grows_check_metadata)
  done

lemma run_checks_entries:
  "7 \<le> length (errors (run_checks e p content new_result))
        + length (info (run_checks e p content new_result))"
  using grows_entries[OF grows_after_required_sections[of content new_result e p]]
    check_required_sections_entries[of content new_result]
  by (simp add: new_result_def)

section \<open>The workflow: what each step does to the decision\<close>

lemma add_step_fields [simp]:
  "can_proceed (add_step n s m d r) = can_proceed r"
  "status (add_step n s m d r) = status r"
  by (simp_all add: add_step_def)

lemma add_action_fields [simp]:
  "can_proceed (add_action n c m i r) = can_proceed r"
  "status (add_action n c m i r) = status r"
  by (simp_all add: add_action_def)

lemma step_alert_check_keeps:
  "\<not> can_proceed r \<Longrightarrow> \<not> can_proceed (step_alert_check w p g s r)"
  by (simp add: step_alert_check_def Let_def)

lemma step_checklist_same:
  "can_proceed (step_checklist w st p g r) = can_proceed r"
  "status (step_checklist w st p g r) = status r"
  by (simp_all add: step_checklist_def Let_def)

lemma step_validate_keeps:
  "\<not> can_proceed r \<Longrightarrow> \<not> can_proceed (step_validate_gate_record w f r)"
  by (simp add: step_validate_gate_record_def Let_def split: option.splits)

lemma step_user_signoff_keeps:
  "\<not> can_proceed r \<Longrightarrow> \<not> can_proceed (step_user_signoff w st p g s r)"
  by (simp add: step_user_signoff_def Let_def)

lemma step_audit_same:
  "can_proceed (step_super_ai_audit w p g s r) = can_proceed r"
  "status (step_super_ai_audit w p g s r) = status r"
  by (simp_all add: step_super_ai_audit_def Let_def)

lemma step_memory_query_same:
  "can_proceed (step_memory_query w r) = can_proceed r"
  "status (step_memory_query w r) = status r"
  by (simp_all add: step_memory_query_def Let_def)

lemma step_anomaly_keeps:
  "\<not> can_proceed r \<Longrightarrow> \<not> can_proceed (step_anomaly_detection w r)"
  by (simp add: step_anomaly_detection_def Let_def split: option.splits)

lemma step_memory_checkpoint_same:
  "can_proceed (step_memory_checkpoint w p g r) = can_proceed r"
  "status (step_memory_checkpoint w p g r) = status r"
  by (simp_all add: step_memory_checkpoint_def Let_def split: option.splits)

lemma step_secure_same:
  "can_proceed (step_secure_event_log w r) = can_proceed r"
  "status (step_secure_event_log w r) = status r"
  by (simp_all add: step_secure_event_log_def split: option.splits)

lemma workflow_steps_keep:
  "f \<in> set (workflow_steps w a) \<Longrightarrow> \<not> can_proceed r \<Longrightarrow> \<not> can_proceed (f r)"
  by (auto simp: workflow_steps_def step_alert_check_keeps step_checklist_same
      step_validate_keeps step_user_signoff_keeps step_audit_same step_memory_query_same
      step_anomaly_keeps step_memory_checkpoint_same step_secure_same)

lemma run_steps_length [simp]: "length (run_steps ks r) = Suc (length ks)"
  by (induction ks arbitrary: r) auto

lemma run_steps_nonempty [simp]: "run_steps ks r \<noteq> []"
  by (cases ks) auto


text \<open>A property that every step preserves holds from the start of the run on.\<close>

lemma run_steps_from_head:
  assumes "\<And>f r. f \<in> set ks \<Longrightarrow> P r \<Longrightarrow> P (f r)" and "P r" and "j < length (run_steps ks r)"
  shows "P (run_steps ks r ! j)"
  using assms
proof (induction ks arbitrary: r j)
  case Nil
  then show ?case by simp
next
  case (Cons f ks)
  show ?case
  proof (cases j)
    case 0
    then show ?thesis using Cons.prems by simp
  next
    case (Suc k)
    have "P (f r)" using Cons.prems by simp
    moreover have "k < length (run_steps ks (f r))" using Cons.prems Suc by simp
    ultimately have "P (run_steps ks (f r) ! k)"
      using Cons.IH[of "f r" k] Cons.prems(1) by simp
    then show ?thesis using Suc by simp
  qed
qed

text \<open>And once it holds at some point of the run, it holds at every later point.\<close>

lemma run_steps_monotone:
  assumes "\<And>f r. f \<in> set ks \<Longrightarrow> P r \<Longrightarrow> P (f r)"
    and "i < j" and "j < length (run_steps ks r)" and "P (run_steps ks r ! i)"
  shows "P (run_steps ks r ! j)"
  using assms
proof (induction ks arbitrary: r i j)
  case Nil
  then show ?case by simp
next
  case (Cons f ks)
  obtain k where j: "j = Suc k" using Cons.prems(2) by (cases j) auto
  have klen: "k < length (run_steps ks (f r))" using Cons.prems(3) j by simp
  show ?case
  proof (cases i)
    case 0
    then have "P r" using Cons.prems(4) by simp
    then have "P (f r)" using Cons.prems(1) by simp
    then have "P (run_steps ks (f r) ! k)"
      using run_steps_from_head[of ks P "f r" k] Cons.prems(1) klen by simp
    then show ?thesis using j by simp
  next
    case (Suc i')
    then have "P (run_steps ks (f r) ! i')" using Cons.prems(4) by simp
    moreover have "i' < k" using Cons.prems(2) Suc j by simp
    ultimately have "P (run_steps ks (f r) ! k)"
      using Cons.IH[of i' k "f r"] Cons.prems(1) klen by simp
    then show ?thesis using j by simp
  qed
qed


lemma workflow_trace_length: "length (workflow_trace w a) = 10"
  by (simp add: workflow_trace_def workflow_steps_def)

lemma trace_once_false_always_false:
  "i < j \<Longrightarrow> j < length (workflow_trace w a) \<Longrightarrow> \<not> can_proceed (workflow_trace w a ! i)
   \<Longrightarrow> \<not> can_proceed (workflow_trace w a ! j)"
  unfolding workflow_trace_def
  using run_steps_monotone[of "workflow_steps w a" "\<lambda>r. \<not> can_proceed r" i j]
    workflow_steps_keep by blast

text \<open>
  C3. In every run of \<open>run_gate_workflow\<close>, with \<open>workflow_trace\<close> the results after each
  of the nine steps (index 0 is the initial result, the last one is the returned result):
  once \<open>can_proceed\<close> is false after step \<open>i\<close>, it is false after every later step \<open>j\<close>.
\<close>

theorem can_proceed_once_false_always_false:
  "i < j \<Longrightarrow> j < length (workflow_trace w a) \<Longrightarrow> \<not> can_proceed (workflow_trace w a ! i)
   \<Longrightarrow> \<not> can_proceed (workflow_trace w a ! j)"
  by (rule trace_once_false_always_false)

theorem can_proceed_once_false_always_false_witness:
  "(1::nat) < 9 \<and> 9 < length (workflow_trace world_blocked args_stage5_phase2_output)
   \<and> \<not> can_proceed (workflow_trace world_blocked args_stage5_phase2_output ! 1)
   \<and> \<not> can_proceed (workflow_trace world_blocked args_stage5_phase2_output ! 9)"
proof -
  have h: "\<not> can_proceed (workflow_trace world_blocked args_stage5_phase2_output ! 1)"
    by code_simp
  have l: "9 < length (workflow_trace world_blocked args_stage5_phase2_output)"
    by (simp add: workflow_trace_length)
  show ?thesis
    using can_proceed_once_false_always_false[of 1 9 world_blocked args_stage5_phase2_output, OF _ l h]
      h l by simp
qed

section \<open>The workflow: a critical alert with a pending sign-off\<close>









end
